theory Spec2Isabelle
  imports Main "HOL-Library.Word"
begin

section \<open>Processes, exceptions and the world the agent acts on\<close>

text \<open>
  The device agent of \<^verbatim>\<open>devices/rpi3/rpi3.py\<close> drives a Raspberry Pi through
  subprocesses (\<^verbatim>\<open>ssh\<close> to the control host, local power and boot-select commands)
  and raises Python exceptions. Every subprocess call is an action appended to a
  trace; what the call does is decided by an environment that sees the trace so far.
  Exceptions are values of \<open>exn\<close>; a function that may raise returns \<open>exn + 'a\<close>
  together with the world it leaves behind.
\<close>

type_synonym byte = "8 word"

text \<open>Decoded text: a list of code points.\<close>

type_synonym unicode = "nat list"

datatype exn =
    ProvisioningError string
  | RecoveryError string
  | KeyError "string option"
  | CalledProcessError string
  | TimeoutExpired
  | OSError
  | IndexError
  | JSONDecodeError
  | UnboundLocalError
  | FileNotFoundError
  | URLError
  | UnicodeDecodeError

text \<open>How a subprocess ends: exit status 0 with its output, another exit status with
  its output, the timeout of the call, or the program could not be started.\<close>

datatype outcome =
    Completed string
  | Failed string
  | TimedOut
  | NotStarted

datatype action =
    Exec "string list" "nat option"
  | Sleep nat
  | Download string string
  | LocalIp
  | ServerStart string
  | QueueGet
  | ServerTerminate
  | SocketBind string nat
  | GetSockName
  | QueuePut nat
  | SocketListen nat
  | SocketAccept
  | FileOpen string
  | SocketSend "byte list"
  | ClientClose
  | ServerClose

text \<open>What \<^verbatim>\<open>lsblk -J\<close> prints, once parsed: an object whose \<^verbatim>\<open>blockdevices\<close> is a
  list of devices; a device is an object that may have a \<^verbatim>\<open>name\<close> and may have
  \<^verbatim>\<open>children\<close>. A key that is absent is \<open>None\<close>.\<close>

datatype blockdev = Blockdev (bd_name: "string option") (bd_children: "blockdev list option")

datatype lsblk = Lsblk (blockdevices: "blockdev list option")

text \<open>
  The environment answers for everything outside the agent's own code:
  \<^item> \<open>respond\<close> and \<open>elapsed\<close>: how a subprocess ends and how many seconds it takes, given
    the trace so far and the argument vector;
  \<^item> \<open>fetch\<close>: the bytes behind a URL (\<open>None\<close>: the download fails);
  \<^item> \<open>local_ip\<close>: the address of the default interface (\<open>None\<close>: there is none);
  \<^item> \<open>bound_port\<close>: the port the operating system assigns to a socket bound to port 0;
  \<^item> \<open>peer_open\<close>: whether the accepted connection still takes data;
  \<^item> \<open>json_loads\<close>: the library's JSON parser on the decoded output of \<^verbatim>\<open>lsblk\<close>
    (\<open>None\<close>: the text is not JSON);
  \<^item> \<open>gzip_rest\<close>: what the library's gzip writer emits after the first three bytes of a
    member (flags, time stamp, deflate stream, check sum);
  \<^item> \<open>xz_decode\<close>, \<open>lzma_decode\<close>: the decoders of \<^verbatim>\<open>xz\<close> for a stream in the .xz and in
    the legacy .lzma container (\<open>None\<close>: the stream is corrupt).
\<close>

record env =
  respond :: "action list \<Rightarrow> string list \<Rightarrow> outcome"
  elapsed :: "action list \<Rightarrow> string list \<Rightarrow> nat"
  fetch :: "string \<Rightarrow> byte list option"
  local_ip :: "string option"
  bound_port :: nat
  peer_open :: "action list \<Rightarrow> bool"
  json_loads :: "unicode \<Rightarrow> lsblk option"
  gzip_rest :: "byte list \<Rightarrow> byte list"
  xz_decode :: "byte list \<Rightarrow> byte list option"
  lzma_decode :: "byte list \<Rightarrow> byte list option"

record world =
  trace :: "action list"
  now :: nat
  files :: "string \<Rightarrow> byte list option"

text \<open>The YAML configuration, with the keys the agent reads; a key that is absent
  is \<open>None\<close> and reading it with \<^verbatim>\<open>self.config[key]\<close> raises \<^verbatim>\<open>KeyError\<close>.\<close>

record config =
  device_ip :: "string option"
  test_device :: "string option"
  select_master_script :: "string list option"
  select_test_script :: "string list option"
  reboot_script :: "string list option"
  post_provision_script :: "string list option"

definition sleep :: "nat \<Rightarrow> world \<Rightarrow> world" where
  "sleep n w = w\<lparr>trace := trace w @ [Sleep n], now := now w + n\<rparr>"

definition run_subprocess :: "env \<Rightarrow> string list \<Rightarrow> nat option \<Rightarrow> world \<Rightarrow> outcome \<times> world" where
  "run_subprocess env argv t w =
     (respond env (trace w) argv,
      w\<lparr>trace := trace w @ [Exec argv t], now := now w + elapsed env (trace w) argv\<rparr>)"

text \<open>\<^verbatim>\<open>subprocess.check_output(argv, stderr=STDOUT, timeout=t)\<close>; an empty argument
  vector raises before any process is started.\<close>

definition check_output :: "env \<Rightarrow> string list \<Rightarrow> nat option \<Rightarrow> world \<Rightarrow> (exn + string) \<times> world" where
  "check_output env argv t w =
     (if argv = [] then (Inl IndexError, w)
      else case run_subprocess env argv t w of
             (Completed out, w') \<Rightarrow> (Inr out, w')
           | (Failed out, w') \<Rightarrow> (Inl (CalledProcessError out), w')
           | (TimedOut, w') \<Rightarrow> (Inl TimeoutExpired, w')
           | (NotStarted, w') \<Rightarrow> (Inl OSError, w'))"

text \<open>\<^verbatim>\<open>subprocess.check_call\<close> differs only in discarding the output.\<close>

definition check_call :: "env \<Rightarrow> string list \<Rightarrow> nat option \<Rightarrow> world \<Rightarrow> (exn + unit) \<times> world" where
  "check_call env argv t w =
     (case check_output env argv t w of
        (Inl e, w') \<Rightarrow> (Inl e, w')
      | (Inr _, w') \<Rightarrow> (Inr (), w'))"

subsection \<open>Strings\<close>

text \<open>
  A Python \<^verbatim>\<open>bytes\<close> value (the output of a subprocess) is a \<open>string\<close>, one \<open>char\<close> for
  each byte. A Python \<^verbatim>\<open>str\<close> taken from the configuration, the job description or the
  source text is a \<open>string\<close> too, one \<open>char\<close> for each code point, so that its code
  points are below 256. The text that \<^verbatim>\<open>bytes.decode()\<close> returns can hold any code
  point and is a list of code points.
\<close>

text \<open>\<^verbatim>\<open>str.split()\<close> with no argument splits at runs of white space and returns no
  empty piece. \<open>is_whitespace\<close> lists the code points that Python takes for white
  space; \<open>is_space\<close> is the same set below 256.\<close>

definition is_whitespace :: "nat \<Rightarrow> bool" where
  "is_whitespace cp =
     ((0x09 \<le> cp \<and> cp \<le> 0x0D) \<or> (0x1C \<le> cp \<and> cp \<le> 0x20) \<or> cp = 0x85 \<or> cp = 0xA0
      \<or> cp = 0x1680 \<or> (0x2000 \<le> cp \<and> cp \<le> 0x200A) \<or> cp = 0x2028 \<or> cp = 0x2029
      \<or> cp = 0x202F \<or> cp = 0x205F \<or> cp = 0x3000)"

definition is_space :: "char \<Rightarrow> bool" where
  "is_space c = (c \<in> set [CHR '' '', CHR 0x09, CHR 0x0A, CHR 0x0B, CHR 0x0C, CHR 0x0D,
                          CHR 0x1C, CHR 0x1D, CHR 0x1E, CHR 0x1F, CHR 0x85, CHR 0xA0])"

fun split_at :: "('a \<Rightarrow> bool) \<Rightarrow> 'a list \<Rightarrow> 'a list \<Rightarrow> 'a list list" where
  "split_at sep cur [] = (if cur = [] then [] else [cur])"
| "split_at sep cur (c # cs) =
     (if sep c then (if cur = [] then split_at sep [] cs else cur # split_at sep [] cs)
      else split_at sep (cur @ [c]) cs)"

text \<open>\<^verbatim>\<open>text.split()\<close> on decoded text.\<close>

definition split_text :: "unicode \<Rightarrow> unicode list" where
  "split_text t = split_at is_whitespace [] t"

text \<open>\<^verbatim>\<open>bytes.decode()\<close>: strict UTF-8. An ill-formed sequence (a stray continuation
  byte, an overlong form, a surrogate, a code point above U+10FFFF, a truncated
  sequence) raises \<^verbatim>\<open>UnicodeDecodeError\<close>, here \<open>None\<close>.\<close>

definition is_cont :: "nat \<Rightarrow> bool" where
  "is_cont b = (0x80 \<le> b \<and> b \<le> 0xBF)"

definition second_of_three :: "nat \<Rightarrow> nat \<Rightarrow> bool" where
  "second_of_three b c =
     (if b = 0xE0 then 0xA0 \<le> c \<and> c \<le> 0xBF
      else if b = 0xED then 0x80 \<le> c \<and> c \<le> 0x9F
      else is_cont c)"

definition second_of_four :: "nat \<Rightarrow> nat \<Rightarrow> bool" where
  "second_of_four b c =
     (if b = 0xF0 then 0x90 \<le> c \<and> c \<le> 0xBF
      else if b = 0xF4 then 0x80 \<le> c \<and> c \<le> 0x8F
      else is_cont c)"

fun utf8_decode :: "nat list \<Rightarrow> unicode option" where
  "utf8_decode [] = Some []"
| "utf8_decode (b # bs) =
     (if b < 0x80 then map_option ((#) b) (utf8_decode bs)
      else if 0xC2 \<le> b \<and> b \<le> 0xDF then
        (case bs of
           c1 # rest \<Rightarrow>
             if is_cont c1
             then map_option ((#) ((b - 0xC0) * 64 + (c1 - 0x80))) (utf8_decode rest)
             else None
         | _ \<Rightarrow> None)
      else if 0xE0 \<le> b \<and> b \<le> 0xEF then
        (case bs of
           c1 # c2 # rest \<Rightarrow>
             if second_of_three b c1 \<and> is_cont c2
             then map_option ((#) ((b - 0xE0) * 4096 + (c1 - 0x80) * 64 + (c2 - 0x80)))
                    (utf8_decode rest)
             else None
         | _ \<Rightarrow> None)
      else if 0xF0 \<le> b \<and> b \<le> 0xF4 then
        (case bs of
           c1 # c2 # c3 # rest \<Rightarrow>
             if second_of_four b c1 \<and> is_cont c2 \<and> is_cont c3
             then map_option ((#) ((b - 0xF0) * 262144 + (c1 - 0x80) * 4096 + (c2 - 0x80) * 64
                                   + (c3 - 0x80)))
                    (utf8_decode rest)
             else None
         | _ \<Rightarrow> None)
      else None)"

definition py_decode :: "string \<Rightarrow> unicode option" where
  "py_decode data = utf8_decode (map of_char data)"

text \<open>A \<^verbatim>\<open>str\<close> of the source as text.\<close>

definition text_of :: "string \<Rightarrow> unicode" where
  "text_of s = map of_char s"

text \<open>\<^verbatim>\<open>cmd.split()\<close> on a \<^verbatim>\<open>str\<close> of the configuration.\<close>

definition py_split :: "string \<Rightarrow> string list" where
  "py_split s = split_at is_space [] s"

text \<open>\<^verbatim>\<open>"{}".format(n)\<close> for a non-negative integer.\<close>

definition digit_char :: "nat \<Rightarrow> char" where
  "digit_char d = ''0123456789'' ! d"

fun str_of_nat :: "nat \<Rightarrow> string" where
  "str_of_nat n = (if n < 10 then [digit_char n] else str_of_nat (n div 10) @ [digit_char (n mod 10)])"

text \<open>\<^verbatim>\<open>needle in haystack\<close> on strings.\<close>

fun starts_with :: "string \<Rightarrow> string \<Rightarrow> bool" where
  "starts_with [] s = True"
| "starts_with (p # ps) [] = False"
| "starts_with (p # ps) (c # cs) = (p = c \<and> starts_with ps cs)"

fun contains :: "string \<Rightarrow> string \<Rightarrow> bool" where
  "contains needle [] = (needle = [])"
| "contains needle (c # cs) = (starts_with needle (c # cs) \<or> contains needle cs)"

section \<open>The remote control channel\<close>

definition ssh_argv :: "string \<Rightarrow> string \<Rightarrow> string \<Rightarrow> string list" where
  "ssh_argv user ip cmd =
     [''ssh'', ''-o'', ''StrictHostKeyChecking=no'', ''-o'', ''UserKnownHostsFile=/dev/null'',
      user @ ''@'' @ ip, cmd]"

text \<open>\<^verbatim>\<open>Rpi3._run_control\<close>: the command runs as \<^verbatim>\<open>pi\<close> on the control host; a
  non-zero exit becomes \<^verbatim>\<open>ProvisioningError\<close> carrying the output, every other
  exception passes through.\<close>

definition run_control :: "config \<Rightarrow> env \<Rightarrow> string \<Rightarrow> nat \<Rightarrow> world \<Rightarrow> (exn + string) \<times> world" where
  "run_control cfg env cmd timeout w =
     (case device_ip cfg of
        None \<Rightarrow> (Inl (KeyError (Some ''device_ip'')), w)
      | Some ip \<Rightarrow>
          (case check_output env (ssh_argv ''pi'' ip cmd) (Some timeout) w of
             (Inl (CalledProcessError out), w') \<Rightarrow> (Inl (ProvisioningError out), w')
           | (r, w') \<Rightarrow> (r, w')))"

section \<open>Boot-mode controller and boot verifier\<close>

text \<open>The loop \<^verbatim>\<open>for cmd in script: try: check_call(cmd.split(), timeout=t) except
  Exception: raise err\<close> shared by \<^verbatim>\<open>setboot\<close> and \<^verbatim>\<open>hardreset\<close>.\<close>

fun run_script :: "env \<Rightarrow> nat \<Rightarrow> exn \<Rightarrow> string list \<Rightarrow> world \<Rightarrow> (exn + unit) \<times> world" where
  "run_script env t err [] w = (Inr (), w)"
| "run_script env t err (cmd # cmds) w =
     (case check_call env (py_split cmd) (Some t) w of
        (Inl e, w') \<Rightarrow> (Inl err, w')
      | (Inr _, w') \<Rightarrow> run_script env t err cmds w')"

definition setboot :: "config \<Rightarrow> env \<Rightarrow> string \<Rightarrow> world \<Rightarrow> (exn + unit) \<times> world" where
  "setboot cfg env mode w =
     (if mode = ''master'' then
        (case select_master_script cfg of
           None \<Rightarrow> (Inl (KeyError (Some ''select_master_script'')), w)
         | Some script \<Rightarrow>
             run_script env 60 (ProvisioningError ''timeout reaching control host!'') script w)
      else if mode = ''test'' then
        (case select_test_script cfg of
           None \<Rightarrow> (Inl (KeyError (Some ''select_test_script'')), w)
         | Some script \<Rightarrow>
             run_script env 60 (ProvisioningError ''timeout reaching control host!'') script w)
      else (Inl (KeyError None), w))"

definition hardreset :: "config \<Rightarrow> env \<Rightarrow> world \<Rightarrow> (exn + unit) \<times> world" where
  "hardreset cfg env w =
     (case reboot_script cfg of
        None \<Rightarrow> (Inl (KeyError (Some ''reboot_script'')), w)
      | Some script \<Rightarrow>
          run_script env 120 (RecoveryError ''timeout reaching control host!'') script w)"

text \<open>\<^verbatim>\<open>is_test_image_booted\<close>: the argument vector is built before the \<^verbatim>\<open>try\<close>,
  so a missing \<^verbatim>\<open>device_ip\<close> raises; every failure of the command is \<open>False\<close>.\<close>

definition is_test_image_booted :: "config \<Rightarrow> env \<Rightarrow> world \<Rightarrow> (exn + bool) \<times> world" where
  "is_test_image_booted cfg env w =
     (case device_ip cfg of
        None \<Rightarrow> (Inl (KeyError (Some ''device_ip'')), w)
      | Some ip \<Rightarrow>
          (case check_output env (ssh_argv ''ubuntu'' ip ''snap -h'') (Some 60) w of
             (Inl e, w') \<Rightarrow> (Inr False, w')
           | (Inr _, w') \<Rightarrow> (Inr True, w')))"

text \<open>\<^verbatim>\<open>is_master_image_booted\<close> never raises.\<close>

definition is_master_image_booted :: "config \<Rightarrow> env \<Rightarrow> world \<Rightarrow> bool \<times> world" where
  "is_master_image_booted cfg env w =
     (case run_control cfg env ''cat /etc/issue'' 60 w of
        (Inl e, w') \<Rightarrow> (False, w')
      | (Inr out, w') \<Rightarrow> (contains ''GNU'' out, w'))"

section \<open>Recovery: \<^verbatim>\<open>ensure_master_image\<close>\<close>

text \<open>How a block of the method ends: it returns from the method, raises, falls
  through to the next statement, or reaches \<^verbatim>\<open>return self.ensure_master_image()\<close>.\<close>

datatype flow = Return | Raise exn | Continue | Recurse

text \<open>The first polling loop. \<open>mb\<close> is the local variable \<^verbatim>\<open>master_booted\<close>, \<open>None\<close>
  while it is unbound.
  \<^verbatim>\<open>
  while time.time() - started < 300:
      time.sleep(10)
      master_booted = self.is_master_image_booted()
      if master_booted:
          return
  \<close>\<close>

function poll_master :: "config \<Rightarrow> env \<Rightarrow> nat \<Rightarrow> bool option \<Rightarrow> world \<Rightarrow> flow \<times> bool option \<times> world" where
  "poll_master cfg env started mb w =
     (if now w - started < 300 then
        (case is_master_image_booted cfg env (sleep 10 w) of
           (master_booted, w') \<Rightarrow>
             if master_booted then (Return, Some master_booted, w')
             else poll_master cfg env started (Some master_booted) w')
      else (Continue, mb, w))"
  by pat_completeness auto
termination
proof (relation "measure (\<lambda>(cfg, env, started, mb, w). started + 300 - now w)")
  show "wf (measure (\<lambda>(cfg, env, started, mb, w). started + 300 - now w))" by simp
next
  fix cfg env started and mb :: "bool option" and w x1 w1
  have m: "\<And>v r v'. is_master_image_booted cfg env v = (r, v') \<Longrightarrow> now v \<le> now v'"
    by (auto simp: is_master_image_booted_def run_control_def check_output_def run_subprocess_def
             split: option.splits outcome.splits if_splits)
  assume a: "now w - started < 300" "(x1, w1) = is_master_image_booted cfg env (sleep 10 w)"
  have "now (sleep 10 w) = now w + 10" by (simp add: sleep_def)
  moreover have "now (sleep 10 w) \<le> now w1" using m[OF a(2)[symmetric]] .
  ultimately have "now w + 10 \<le> now w1" by simp
  with a(1) show "((cfg, env, started, Some x1, w1), cfg, env, started, mb, w)
      \<in> measure (\<lambda>(cfg, env, started, mb, w). started + 300 - now w)"
    by simp
qed

declare poll_master.simps [simp del]

text \<open>The second polling loop.
  \<^verbatim>\<open>
  while time.time() - started < 300:
      time.sleep(10)
      if self.is_master_image_booted():
          return
      elif self.is_test_image_booted():
          return self.ensure_master_image()
  \<close>\<close>

function poll_recover :: "config \<Rightarrow> env \<Rightarrow> nat \<Rightarrow> world \<Rightarrow> flow \<times> world" where
  "poll_recover cfg env started w =
     (if now w - started < 300 then
        (case is_master_image_booted cfg env (sleep 10 w) of
           (True, w1) \<Rightarrow> (Return, w1)
         | (False, w1) \<Rightarrow>
             (case is_test_image_booted cfg env w1 of
                (Inl e, w2) \<Rightarrow> (Raise e, w2)
              | (Inr True, w2) \<Rightarrow> (Recurse, w2)
              | (Inr False, w2) \<Rightarrow> poll_recover cfg env started w2))
      else (Continue, w))"
  by pat_completeness auto
termination
proof (relation "measure (\<lambda>(cfg, env, started, w). started + 300 - now w)")
  show "wf (measure (\<lambda>(cfg, env, started, w). started + 300 - now w))" by simp
next
  fix cfg env started w x1 w1 x2 w2
  have m: "\<And>v r v'. is_master_image_booted cfg env v = (r, v') \<Longrightarrow> now v \<le> now v'"
    by (auto simp: is_master_image_booted_def run_control_def check_output_def run_subprocess_def
             split: option.splits outcome.splits if_splits)
  have t: "\<And>v r v'. is_test_image_booted cfg env v = (r, v') \<Longrightarrow> now v \<le> now v'"
    by (auto simp: is_test_image_booted_def check_output_def run_subprocess_def
             split: option.splits outcome.splits if_splits)
  assume a: "now w - started < 300" "(x1, w1) = is_master_image_booted cfg env (sleep 10 w)"
    "(x2, w2) = is_test_image_booted cfg env w1"
  have "now (sleep 10 w) = now w + 10" by (simp add: sleep_def)
  moreover have "now (sleep 10 w) \<le> now w1" using m[OF a(2)[symmetric]] .
  moreover have "now w1 \<le> now w2" using t[OF a(3)[symmetric]] .
  ultimately have "now w + 10 \<le> now w2" by simp
  with a(1) show "((cfg, env, started, w2), cfg, env, started, w)
      \<in> measure (\<lambda>(cfg, env, started, w). started + 300 - now w)"
    by simp
qed

declare poll_recover.simps [simp del]

text \<open>The branch taken when the test image is booted: switch the boot mode, power
  cycle, poll for the master image.\<close>

definition reset_to_master :: "config \<Rightarrow> env \<Rightarrow> world \<Rightarrow> flow \<times> world" where
  "reset_to_master cfg env w =
     (case setboot cfg env ''master'' w of
        (Inl e, w1) \<Rightarrow> (Raise e, w1)
      | (Inr _, w1) \<Rightarrow>
          (case hardreset cfg env w1 of
             (Inl e, w2) \<Rightarrow> (Raise e, w2)
           | (Inr _, w2) \<Rightarrow>
               (case poll_master cfg env (now w2) None w2 of
                  (Return, mb, w3) \<Rightarrow> (Return, w3)
                | (f, None, w3) \<Rightarrow> (Raise UnboundLocalError, w3)
                | (f, Some False, w3) \<Rightarrow> (Raise (RecoveryError ''Could not reboot to master!''), w3)
                | (f, Some True, w3) \<Rightarrow> (Continue, w3))))"

text \<open>The rest of the method: probe for the master image; when it is not booted, power
  cycle and poll for either image.\<close>

definition recover_unknown :: "config \<Rightarrow> env \<Rightarrow> world \<Rightarrow> flow \<times> world" where
  "recover_unknown cfg env w =
     (case is_master_image_booted cfg env w of
        (True, w1) \<Rightarrow> (Continue, w1)
      | (False, w1) \<Rightarrow>
          (case hardreset cfg env w1 of
             (Inl e, w2) \<Rightarrow> (Raise e, w2)
           | (Inr _, w2) \<Rightarrow>
               (case poll_recover cfg env (now w2) w2 of
                  (Continue, w3) \<Rightarrow>
                    (Raise (RecoveryError
                       ''Device is in an unknown state, may require manual recovery!''), w3)
                | (f, w3) \<Rightarrow> (f, w3))))"

text \<open>\<^verbatim>\<open>ensure_master_image\<close> calls itself, with no bound on the depth in the source.
  The first argument bounds the depth of the self-calls; \<open>None\<close> means that the bound
  was reached before the method returned or raised.\<close>

fun ensure_master_image :: "nat \<Rightarrow> config \<Rightarrow> env \<Rightarrow> world \<Rightarrow> ((exn + unit) \<times> world) option" where
  "ensure_master_image 0 cfg env w = None"
| "ensure_master_image (Suc depth) cfg env w =
     (case is_test_image_booted cfg env w of
        (Inl e, w1) \<Rightarrow> Some (Inl e, w1)
      | (Inr test_booted, w1) \<Rightarrow>
          (case (if test_booted then reset_to_master cfg env w1 else (Continue, w1)) of
             (Return, w2) \<Rightarrow> Some (Inr (), w2)
           | (Raise e, w2) \<Rightarrow> Some (Inl e, w2)
           | (Recurse, w2) \<Rightarrow> ensure_master_image depth cfg env w2
           | (Continue, w2) \<Rightarrow>
               (case recover_unknown cfg env w2 of
                  (Return, w3) \<Rightarrow> Some (Inr (), w3)
                | (Raise e, w3) \<Rightarrow> Some (Inl e, w3)
                | (Recurse, w3) \<Rightarrow> ensure_master_image depth cfg env w3
                | (Continue, w3) \<Rightarrow> Some (Inr (), w3))))"

section \<open>The image writer: \<^verbatim>\<open>flash_test_image\<close>\<close>

definition umount_cmd :: "string \<Rightarrow> string" where
  "umount_cmd dev = ''sudo umount '' @ dev @ ''*''"

definition flash_cmd :: "string \<Rightarrow> nat \<Rightarrow> string \<Rightarrow> string" where
  "flash_cmd server_ip server_port dev =
     ''nc.traditional '' @ server_ip @ '' '' @ str_of_nat server_port
       @ ''| xzcat| sudo dd of='' @ dev @ '' bs=16M''"

definition hdparm_cmd :: "string \<Rightarrow> string" where
  "hdparm_cmd dev = ''sudo hdparm -z '' @ dev"

text \<open>\<^verbatim>\<open>self.config["test_device"]\<close> evaluated as an argument.\<close>

definition config_test_device :: "config \<Rightarrow> exn + string" where
  "config_test_device cfg =
     (case test_device cfg of None \<Rightarrow> Inl (KeyError (Some ''test_device'')) | Some dev \<Rightarrow> Inr dev)"

definition flash_test_image :: "config \<Rightarrow> env \<Rightarrow> string \<Rightarrow> nat \<Rightarrow> world \<Rightarrow> (exn + unit) \<times> world" where
  "flash_test_image cfg env server_ip server_port w =
     (case (case config_test_device cfg of
              Inl e \<Rightarrow> (Inl e, w)
            | Inr dev \<Rightarrow> run_control cfg env (umount_cmd dev) 30 w) of
        (Inl (KeyError k), w1) \<Rightarrow>
          (Inl (RecoveryError ''Device config missing test_device''), w1)
      | (unmounted, w1) \<Rightarrow>
          (case config_test_device cfg of
             Inl e \<Rightarrow> (Inl e, w1)
           | Inr dev \<Rightarrow>
               (case run_control cfg env (flash_cmd server_ip server_port dev) 1800 w1 of
                  (Inl e, w2) \<Rightarrow>
                    (Inl (ProvisioningError ''timeout reached while flashing image!''), w2)
                | (Inr _, w2) \<Rightarrow>
                    (case (case run_control cfg env ''sync'' 60 w2 of
                             (Inl e, w3) \<Rightarrow> sleep 30 w3
                           | (Inr _, w3) \<Rightarrow> w3) of
                       w3 \<Rightarrow>
                         (case config_test_device cfg of
                            Inl e \<Rightarrow>
                              (Inl (ProvisioningError ''Unable to run hdparm to rescan partitions''), w3)
                          | Inr dev' \<Rightarrow>
                              (case run_control cfg env (hdparm_cmd dev') 30 w3 of
                                 (Inl e, w4) \<Rightarrow>
                                   (Inl (ProvisioningError
                                      ''Unable to run hdparm to rescan partitions''), w4)
                               | (Inr _, w4) \<Rightarrow> (Inr (), w4)))))))"

section \<open>The image inspector: \<^verbatim>\<open>remote_mount\<close> and \<^verbatim>\<open>get_image_type\<close>\<close>

text \<open>The context manager \<^verbatim>\<open>remote_mount\<close>: mount, run the body, and unmount on every
  way out of the body; an exception of the unmount replaces the body's result.\<close>

definition remote_mount ::
  "config \<Rightarrow> env \<Rightarrow> string \<Rightarrow> string \<Rightarrow> (world \<Rightarrow> (exn + 'a) \<times> world) \<Rightarrow> world \<Rightarrow> (exn + 'a) \<times> world" where
  "remote_mount cfg env remote_device mount_point body w =
     (case run_control cfg env (''sudo mount /dev/'' @ remote_device @ '' '' @ mount_point) 60 w of
        (Inl e, w1) \<Rightarrow> (Inl e, w1)
      | (Inr _, w1) \<Rightarrow>
          (case body w1 of
             (r, w2) \<Rightarrow>
               (case run_control cfg env (''sudo umount '' @ mount_point) 60 w2 of
                  (Inl e, w3) \<Rightarrow> (Inl e, w3)
                | (Inr _, w3) \<Rightarrow> (r, w3))))"

definition IMAGE_PATH_IDS :: "(string \<times> string) list" where
  "IMAGE_PATH_IDS = [(''etc'', ''ubuntu''), (''system-data'', ''core''), (''snaps'', ''core20'')]"

text \<open>The inner loop over \<^verbatim>\<open>IMAGE_PATH_IDS.items()\<close>, given \<^verbatim>\<open>dirs.decode()\<close>: the first
  marker among the listed names, if any.\<close>

definition match_image_type :: "unicode \<Rightarrow> string option" where
  "match_image_type dirs =
     map_option snd
       (find (\<lambda>(path, img_type). text_of path \<in> set (split_text dirs)) IMAGE_PATH_IDS)"

text \<open>One round of the loop over the partitions: \<open>Some img_type\<close> when the method
  returns from inside the \<^verbatim>\<open>with\<close> block, \<open>None\<close> when the loop goes on (no marker,
  or an exception, which \<^verbatim>\<open>except Exception: continue\<close> discards).\<close>

definition check_partition :: "config \<Rightarrow> env \<Rightarrow> string \<Rightarrow> world \<Rightarrow> string option \<times> world" where
  "check_partition cfg env dev w =
     (case remote_mount cfg env dev ''/mnt''
             (\<lambda>w1. case run_control cfg env ''ls /mnt'' 60 w1 of
                      (Inl e, w2) \<Rightarrow> (Inl e, w2)
                    | (Inr dirs, w2) \<Rightarrow>
                        (case py_decode dirs of
                           None \<Rightarrow> (Inl UnicodeDecodeError, w2)
                         | Some decoded \<Rightarrow> (Inr (match_image_type decoded), w2))) w of
        (Inl e, w') \<Rightarrow> (None, w')
      | (Inr found, w') \<Rightarrow> (found, w'))"

text \<open>The loop \<^verbatim>\<open>for dev in dev_list\<close>; the third argument is the value of the
  variable \<^verbatim>\<open>dev\<close> before the round.\<close>

fun scan_partitions :: "config \<Rightarrow> env \<Rightarrow> string list \<Rightarrow> string \<Rightarrow> world \<Rightarrow> (string \<times> string) \<times> world" where
  "scan_partitions cfg env [] dev w = ((''unknown'', dev), w)"
| "scan_partitions cfg env (d # ds) dev w =
     (case check_partition cfg env d w of
        (Some img_type, w') \<Rightarrow> ((img_type, d), w')
      | (None, w') \<Rightarrow> scan_partitions cfg env ds d w')"

text \<open>\<^verbatim>\<open>[x.get("name") for x in children if x.get("name")]\<close>\<close>

definition child_names :: "blockdev list \<Rightarrow> string list" where
  "child_names children =
     List.map_filter (\<lambda>x. case bd_name x of
                             None \<Rightarrow> None
                           | Some name \<Rightarrow> if name = [] then None else Some name) children"

definition get_image_type :: "config \<Rightarrow> env \<Rightarrow> world \<Rightarrow> (exn + string \<times> string) \<times> world" where
  "get_image_type cfg env w =
     (case config_test_device cfg of
        Inl e \<Rightarrow> (Inl e, w)
      | Inr dev \<Rightarrow>
          (case run_control cfg env (''lsblk -J '' @ dev) 60 w of
             (Inl e, w1) \<Rightarrow> (Inl e, w1)
           | (Inr lsblk_data, w1) \<Rightarrow>
               (case py_decode lsblk_data of
                  None \<Rightarrow> (Inl UnicodeDecodeError, w1)
                | Some decoded \<Rightarrow>
                    (case json_loads env decoded of
                       None \<Rightarrow> (Inl JSONDecodeError, w1)
                     | Some lsblk_json \<Rightarrow>
                         (case blockdevices lsblk_json of
                            None \<Rightarrow> (Inl (KeyError (Some ''blockdevices'')), w1)
                          | Some [] \<Rightarrow> (Inl IndexError, w1)
                          | Some (first # others) \<Rightarrow>
                              (case bd_children first of
                                 None \<Rightarrow> (Inl (KeyError (Some ''children'')), w1)
                               | Some children \<Rightarrow>
                                   (case scan_partitions cfg env (child_names children) dev w1 of
                                      (r, w2) \<Rightarrow> (Inr r, w2))))))))"

section \<open>The user seeder and the best-effort steps\<close>

definition nl :: string where
  "nl = [CHR 0x0A]"

definition metadata :: string where
  "metadata = ''instance_id: cloud-image''"

definition userdata :: string where
  "userdata =
     ''#cloud-config'' @ nl @ ''password: ubuntu'' @ nl @ ''chpasswd:'' @ nl
     @ ''    list:'' @ nl @ ''        - ubuntu:ubuntu'' @ nl @ ''    expire: False'' @ nl
     @ ''ssh_pwauth: True''"

definition uc20_ci_data :: string where
  "uc20_ci_data =
     ''#cloud-config'' @ nl @ ''datasource_list: [ NoCloud, None ]'' @ nl
     @ ''datasource:'' @ nl @ ''  NoCloud:'' @ nl @ ''    user-data: |'' @ nl
     @ ''      #cloud-config'' @ nl @ ''      password: ubuntu'' @ nl
     @ ''      chpasswd:'' @ nl @ ''          list:'' @ nl
     @ ''              - ubuntu:ubuntu'' @ nl @ ''          expire: False'' @ nl
     @ ''      ssh_pwauth: True'' @ nl @ ''    meta-data: |'' @ nl
     @ ''      instance_id: cloud-image''"

text \<open>\<^verbatim>\<open>"sudo bash -c \"echo '{}' > /{}/{}\"".format(payload, path, file)\<close>\<close>

definition write_cmd :: "string \<Rightarrow> string \<Rightarrow> string \<Rightarrow> string" where
  "write_cmd payload path file =
     ''sudo bash -c '' @ [CHR 0x22] @ ''echo '' @ [CHR 0x27] @ payload @ [CHR 0x27]
     @ '' > /'' @ path @ ''/'' @ file @ [CHR 0x22]"

text \<open>\<^verbatim>\<open>os.path.join\<close> of a directory without a trailing slash and a relative path.\<close>

definition path_join :: "string \<Rightarrow> string \<Rightarrow> string" where
  "path_join base rel = base @ ''/'' @ rel"

text \<open>Consecutive \<^verbatim>\<open>self._run_control(cmd)\<close> statements: the first exception ends
  the sequence.\<close>

fun run_controls :: "config \<Rightarrow> env \<Rightarrow> string list \<Rightarrow> world \<Rightarrow> (exn + unit) \<times> world" where
  "run_controls cfg env [] w = (Inr (), w)"
| "run_controls cfg env (cmd # cmds) w =
     (case run_control cfg env cmd 60 w of
        (Inl e, w') \<Rightarrow> (Inl e, w')
      | (Inr _, w') \<Rightarrow> run_controls cfg env cmds w')"

definition create_user :: "config \<Rightarrow> env \<Rightarrow> string \<Rightarrow> world \<Rightarrow> (exn + unit) \<times> world" where
  "create_user cfg env image_type w =
     (let base = (if image_type = ''core'' then ''/mnt/system-data'' else ''/mnt'') in
      case (if image_type = ''core20'' then
              (let ci_path = path_join base ''data/etc/cloud/cloud.cfg.d'' in
               run_controls cfg env
                 [''sudo mkdir -p '' @ ci_path,
                  write_cmd uc20_ci_data ci_path ''99_nocloud.cfg''] w)
            else
              (let ci_path = path_join base ''var/lib/cloud/seed/nocloud-net'' in
               run_controls cfg env
                 ([''sudo mkdir -p '' @ ci_path,
                   write_cmd metadata ci_path ''meta-data'',
                   write_cmd userdata ci_path ''user-data'']
                  @ (if image_type = ''ubuntu''
                     then [''sudo rm -f '' @ path_join base ''etc/cloud/cloud.cfg.d/99-fake?cloud.cfg'']
                     else [])) w)) of
        (Inl e, w') \<Rightarrow> (Inl (ProvisioningError ''Error creating user files''), w')
      | (Inr _, w') \<Rightarrow> (Inr (), w'))"

text \<open>\<^verbatim>\<open>wipe_test_device\<close>: the whole body is inside \<^verbatim>\<open>try: ... except Exception:
  pass\<close>.\<close>

definition wipe_test_device :: "config \<Rightarrow> env \<Rightarrow> world \<Rightarrow> (exn + unit) \<times> world" where
  "wipe_test_device cfg env w =
     (case (case config_test_device cfg of
              Inl e \<Rightarrow> (Inl e, w)
            | Inr dev \<Rightarrow> run_control cfg env (''sudo wipefs -af '' @ dev) 60 w) of
        (Inl e, w') \<Rightarrow> (Inr (), w')
      | (Inr _, w') \<Rightarrow> (Inr (), w'))"

fun run_post_provision_cmds :: "config \<Rightarrow> env \<Rightarrow> string list \<Rightarrow> world \<Rightarrow> world" where
  "run_post_provision_cmds cfg env [] w = w"
| "run_post_provision_cmds cfg env (cmd # cmds) w =
     (case run_control cfg env cmd 60 w of
        (Inl e, w') \<Rightarrow> run_post_provision_cmds cfg env cmds w'
      | (Inr _, w') \<Rightarrow> run_post_provision_cmds cfg env cmds w')"

definition run_post_provision_script :: "config \<Rightarrow> env \<Rightarrow> world \<Rightarrow> (exn + unit) \<times> world" where
  "run_post_provision_script cfg env w =
     (Inr (), run_post_provision_cmds cfg env
                (case post_provision_script cfg of None \<Rightarrow> [] | Some cmds \<Rightarrow> cmds) w)"

section \<open>Booting the test image: \<^verbatim>\<open>ensure_test_image\<close>\<close>

definition ssh_copy_id_argv :: "string \<Rightarrow> string \<Rightarrow> string \<Rightarrow> string list" where
  "ssh_copy_id_argv test_username test_password ip =
     [''sshpass'', ''-p'', test_password, ''ssh-copy-id'', ''-o'', ''StrictHostKeyChecking=no'',
      ''-o'', ''UserKnownHostsFile=/dev/null'', test_username @ ''@'' @ ip]"

text \<open>The body of the \<^verbatim>\<open>try\<close> inside the loop, after the sleep; an exception leaves
  \<^verbatim>\<open>test_image_booted\<close> as it was.\<close>

definition login_and_probe :: "config \<Rightarrow> env \<Rightarrow> string \<Rightarrow> string \<Rightarrow> bool \<Rightarrow> world \<Rightarrow> bool \<times> world" where
  "login_and_probe cfg env test_username test_password test_image_booted w =
     (case device_ip cfg of
        None \<Rightarrow> (test_image_booted, w)
      | Some ip \<Rightarrow>
          (case check_call env (ssh_copy_id_argv test_username test_password ip) None w of
             (Inl e, w1) \<Rightarrow> (test_image_booted, w1)
           | (Inr _, w1) \<Rightarrow>
               (case is_test_image_booted cfg env w1 of
                  (Inl e, w2) \<Rightarrow> (test_image_booted, w2)
                | (Inr booted, w2) \<Rightarrow> (booted, w2))))"

function poll_test :: "config \<Rightarrow> env \<Rightarrow> string \<Rightarrow> string \<Rightarrow> nat \<Rightarrow> bool \<Rightarrow> world \<Rightarrow> bool \<times> world" where
  "poll_test cfg env test_username test_password started test_image_booted w =
     (if now w - started < 600 then
        (case login_and_probe cfg env test_username test_password test_image_booted (sleep 10 w) of
           (booted, w') \<Rightarrow>
             if booted then (booted, w')
             else poll_test cfg env test_username test_password started booted w')
      else (test_image_booted, w))"
  by pat_completeness auto
termination
proof (relation "measure (\<lambda>(cfg, env, u, p, started, b, w). started + 600 - now w)")
  show "wf (measure (\<lambda>(cfg, env, u, p, started, b, w). started + 600 - now w))" by simp
next
  fix cfg env u p started and b :: bool and w x1 w1
  have l: "\<And>v r v'. login_and_probe cfg env u p b v = (r, v') \<Longrightarrow> now v \<le> now v'"
    by (auto simp: login_and_probe_def is_test_image_booted_def check_call_def check_output_def
                   run_subprocess_def ssh_copy_id_argv_def ssh_argv_def
             split: option.splits outcome.splits if_splits)
  assume a: "now w - started < 600" "(x1, w1) = login_and_probe cfg env u p b (sleep 10 w)"
  have "now (sleep 10 w) = now w + 10" by (simp add: sleep_def)
  moreover have "now (sleep 10 w) \<le> now w1" using l[OF a(2)[symmetric]] .
  ultimately have "now w + 10 \<le> now w1" by simp
  with a(1) show "((cfg, env, u, p, started, x1, w1), cfg, env, u, p, started, b, w)
      \<in> measure (\<lambda>(cfg, env, u, p, started, b, w). started + 600 - now w)"
    by simp
qed

declare poll_test.simps [simp del]

definition ensure_test_image :: "config \<Rightarrow> env \<Rightarrow> string \<Rightarrow> string \<Rightarrow> world \<Rightarrow> (exn + unit) \<times> world" where
  "ensure_test_image cfg env test_username test_password w =
     (case setboot cfg env ''test'' w of
        (Inl e, w1) \<Rightarrow> (Inl e, w1)
      | (Inr _, w1) \<Rightarrow>
          (case run_control cfg env ''sudo /sbin/reboot'' 60 w1 of
             (rebooting, w2) \<Rightarrow>
               (case poll_test cfg env test_username test_password (now (sleep 60 w2)) False
                       (sleep 60 w2) of
                  (test_image_booted, w3) \<Rightarrow>
                    if \<not> test_image_booted
                    then (Inl (ProvisioningError ''Failed to boot test image!''), w3)
                    else (Inr (), w3))))"

section \<open>The image on its way: \<^verbatim>\<open>compress_file\<close>, \<^verbatim>\<open>serve_file\<close> and the writer's pipeline\<close>

text \<open>\<^verbatim>\<open>f.read(n)\<close> until it returns nothing: the pieces of a file read \<open>n\<close> bytes at
  a time.\<close>

function read_buf :: "nat \<Rightarrow> byte list \<Rightarrow> byte list list" where
  "read_buf n content =
     (if take n content = [] then [] else take n content # read_buf n (drop n content))"
  by pat_completeness auto
termination
  by (relation "measure (\<lambda>(n, content). length content)") auto

declare read_buf.simps [simp del]

text \<open>A gzip member starts with the magic bytes \<^verbatim>\<open>1f 8b\<close> and the method byte \<^verbatim>\<open>08\<close>
  (deflate); the rest comes from the library.\<close>

definition gzip_member :: "env \<Rightarrow> byte list \<Rightarrow> byte list" where
  "gzip_member env content = [0x1f, 0x8b, 0x08] @ gzip_rest env content"

text \<open>\<^verbatim>\<open>compress_file\<close>: the file is read in pieces of 4096 bytes, each written to
  \<^verbatim>\<open>gzip.open(filename + ".gz", "wb")\<close>; then the original is unlinked.\<close>

definition compress_file :: "env \<Rightarrow> string \<Rightarrow> world \<Rightarrow> (exn + string) \<times> world" where
  "compress_file env filename w =
     (let compressed_filename = filename @ ''.gz'' in
      case files w filename of
        None \<Rightarrow> (Inl FileNotFoundError, w)
      | Some content \<Rightarrow>
          (Inr compressed_filename,
           w\<lparr>files := ((files w)(compressed_filename :=
                          Some (gzip_member env (concat (read_buf 4096 content)))))
                        (filename := None)\<rparr>))"

definition emit :: "action \<Rightarrow> world \<Rightarrow> world" where
  "emit a w = w\<lparr>trace := trace w @ [a]\<rparr>"

text \<open>The loop of \<^verbatim>\<open>serve_file\<close>:
  \<^verbatim>\<open>
  while True:
      data = f.read(16 * 1024 * 1024)
      if not data:
          break
      client.send(data)
  \<close>
  A \<^verbatim>\<open>send\<close> on a connection that the peer has closed raises. \<open>chunk_size\<close> is the
  argument of \<^verbatim>\<open>f.read\<close>.\<close>

definition chunk_size :: nat where
  "chunk_size = 16 * 1024 * 1024"

function send_file :: "env \<Rightarrow> byte list \<Rightarrow> world \<Rightarrow> (exn + unit) \<times> world" where
  "send_file env content w =
     (let data = take chunk_size content in
      if data = [] then (Inr (), w)
      else if peer_open env (trace w)
           then send_file env (drop chunk_size content) (emit (SocketSend data) w)
           else (Inl OSError, emit (SocketSend data) w))"
  by pat_completeness auto
termination
  by (relation "measure (\<lambda>(env, content, w). length content)") auto

declare send_file.simps [simp del]

definition serve_file :: "env \<Rightarrow> string \<Rightarrow> world \<Rightarrow> (exn + unit) \<times> world" where
  "serve_file env filename w =
     (let port = bound_port env;
          w1 = emit SocketAccept (emit (SocketListen 1) (emit (QueuePut port)
                 (emit GetSockName (emit (SocketBind ''0.0.0.0'' 0) w))));
          w2 = emit (FileOpen filename) w1
      in case files w filename of
           None \<Rightarrow> (Inl FileNotFoundError, w2)
         | Some content \<Rightarrow>
             (case send_file env content w2 of
                (Inl e, w3) \<Rightarrow> (Inl e, w3)
              | (Inr _, w3) \<Rightarrow> (Inr (), emit ServerClose (emit ClientClose w3))))"

text \<open>The bytes that went over the connection.\<close>

fun sent_bytes :: "action list \<Rightarrow> byte list" where
  "sent_bytes [] = []"
| "sent_bytes (SocketSend data # tr) = data @ sent_bytes tr"
| "sent_bytes (a # tr) = sent_bytes tr"

text \<open>
  The writer's side is the shell pipeline \<^verbatim>\<open>nc.traditional ip port | xzcat | sudo dd
  of=dev bs=16M\<close> of \<^verbatim>\<open>flash_test_image\<close>. \<^verbatim>\<open>xzcat\<close> is \<^verbatim>\<open>xz --decompress --stdout\<close>:
  it takes a stream that starts with the six magic bytes of the .xz container, or one
  whose first thirteen bytes are a plausible header of the legacy .lzma container
  (a properties byte of at most 224, a dictionary size of the form \<open>2^n\<close> or
  \<open>2^n + 2^(n-1)\<close> or \<open>2^32 - 1\<close>, an uncompressed size that is unknown or at most
  256 GiB). Any other stream is refused (\<^verbatim>\<open>File format not recognized\<close>) and nothing
  is written to the standard output.
\<close>

datatype xz_error = FormatError | DataError

definition xz_magic :: "byte list" where
  "xz_magic = [0xFD, 0x37, 0x7A, 0x58, 0x5A, 0x00]"

definition is_format_xz :: "byte list \<Rightarrow> bool" where
  "is_format_xz stream = (take 6 stream = xz_magic)"

fun le_nat :: "byte list \<Rightarrow> nat" where
  "le_nat [] = 0"
| "le_nat (b # bs) = unat b + 256 * le_nat bs"

definition dict_size_ok :: "nat \<Rightarrow> bool" where
  "dict_size_ok d =
     (d = 2 ^ 32 - 1 \<or> d \<in> set (concat (map (\<lambda>n. [2 ^ n, 2 ^ n + 2 ^ (n - 1)]) [0..<32])))"

definition is_format_lzma :: "byte list \<Rightarrow> bool" where
  "is_format_lzma stream =
     (13 \<le> length stream
      \<and> unat (hd stream) \<le> 224
      \<and> dict_size_ok (le_nat (take 4 (drop 1 stream)))
      \<and> (le_nat (take 8 (drop 5 stream)) = 2 ^ 64 - 1
         \<or> le_nat (take 8 (drop 5 stream)) \<le> 2 ^ 38))"

definition xzcat :: "env \<Rightarrow> byte list \<Rightarrow> xz_error + byte list" where
  "xzcat env stream =
     (if is_format_xz stream then
        (case xz_decode env stream of None \<Rightarrow> Inl DataError | Some content \<Rightarrow> Inr content)
      else if is_format_lzma stream then
        (case lzma_decode env stream of None \<Rightarrow> Inl DataError | Some content \<Rightarrow> Inr content)
      else Inl FormatError)"

text \<open>\<^verbatim>\<open>dd of=dev\<close> writes its input over the start of the block device.\<close>

definition dd_of :: "byte list \<Rightarrow> byte list \<Rightarrow> byte list" where
  "dd_of input device = input @ drop (length input) device"

definition flash_pipeline :: "env \<Rightarrow> byte list \<Rightarrow> byte list \<Rightarrow> byte list" where
  "flash_pipeline env stream device =
     dd_of (case xzcat env stream of Inl e \<Rightarrow> [] | Inr content \<Rightarrow> content) device"

text \<open>The whole way of an image: it is stored as \<^verbatim>\<open>snappy.img\<close>, compressed by
  \<^verbatim>\<open>compress_file\<close>, sent by \<^verbatim>\<open>serve_file\<close> and written by the pipeline. The result
  is what the device holds afterwards.\<close>

definition transfer_image :: "env \<Rightarrow> byte list \<Rightarrow> byte list \<Rightarrow> byte list" where
  "transfer_image env img device =
     (case compress_file env ''snappy.img''
             \<lparr>trace = [], now = 0, files = (\<lambda>name. None)(''snappy.img'' := Some img)\<rparr> of
        (Inl e, w) \<Rightarrow> device
      | (Inr image_file, w) \<Rightarrow>
          (case serve_file env image_file w of
             (served, w') \<Rightarrow> flash_pipeline env (sent_bytes (trace w')) device))"

section \<open>The provisioning run: \<^verbatim>\<open>provision\<close>\<close>

text \<open>The job description, with the keys the agent reads.\<close>

record provision_info =
  url :: "string option"

record test_info =
  test_username :: "string option"
  test_password :: "string option"

record job_data =
  provision_data :: "provision_info option"
  test_data :: "test_info option"

text \<open>\<^verbatim>\<open>snappy_device_agents.download(url, filename)\<close>\<close>

definition download :: "env \<Rightarrow> string \<Rightarrow> string \<Rightarrow> world \<Rightarrow> (exn + string) \<times> world" where
  "download env u filename w =
     (case fetch env u of
        None \<Rightarrow> (Inl URLError, emit (Download u filename) w)
      | Some content \<Rightarrow>
          (Inr filename,
           (emit (Download u filename) w)\<lparr>files := (files w)(filename := Some content)\<rparr>))"

definition get_local_ip_addr :: "env \<Rightarrow> world \<Rightarrow> (exn + string) \<times> world" where
  "get_local_ip_addr env w =
     (case local_ip env of
        None \<Rightarrow> (Inl (KeyError None), emit LocalIp w)
      | Some ip \<Rightarrow> (Inr ip, emit LocalIp w))"

text \<open>\<^verbatim>\<open>self.job_data.get("test_data", {}).get(key, "ubuntu")\<close>\<close>

definition job_test_username :: "job_data \<Rightarrow> string" where
  "job_test_username job =
     (case test_data job of
        None \<Rightarrow> ''ubuntu''
      | Some td \<Rightarrow> (case test_username td of None \<Rightarrow> ''ubuntu'' | Some u \<Rightarrow> u))"

definition job_test_password :: "job_data \<Rightarrow> string" where
  "job_test_password job =
     (case test_data job of
        None \<Rightarrow> ''ubuntu''
      | Some td \<Rightarrow> (case test_password td of None \<Rightarrow> ''ubuntu'' | Some p \<Rightarrow> p))"

text \<open>The body of the \<^verbatim>\<open>try\<close> block of \<^verbatim>\<open>provision\<close>: flashing, tearing the file
  server down, inspecting, seeding, the post-provision script and booting the test
  image.\<close>

definition provision_stages ::
  "config \<Rightarrow> env \<Rightarrow> string \<Rightarrow> nat \<Rightarrow> string \<Rightarrow> string \<Rightarrow> world \<Rightarrow> (exn + unit) \<times> world" where
  "provision_stages cfg env server_ip server_port test_user test_pass w =
     (case flash_test_image cfg env server_ip server_port w of
        (Inl e, w1) \<Rightarrow> (Inl e, w1)
      | (Inr _, w1) \<Rightarrow>
          (case get_image_type cfg env (emit ServerTerminate w1) of
             (Inl e, w2) \<Rightarrow> (Inl e, w2)
           | (Inr (image_type, image_dev), w2) \<Rightarrow>
               (case remote_mount cfg env image_dev ''/mnt'' (create_user cfg env image_type) w2 of
                  (Inl e, w3) \<Rightarrow> (Inl e, w3)
                | (Inr _, w3) \<Rightarrow>
                    (case run_post_provision_script cfg env w3 of
                       (Inl e, w4) \<Rightarrow> (Inl e, w4)
                     | (Inr _, w4) \<Rightarrow> ensure_test_image cfg env test_user test_pass w4))))"

text \<open>\<^verbatim>\<open>except Exception: self.wipe_test_device(); raise\<close>\<close>

definition wipe_and_reraise :: "config \<Rightarrow> env \<Rightarrow> exn \<Rightarrow> world \<Rightarrow> (exn + unit) \<times> world" where
  "wipe_and_reraise cfg env e w =
     (case wipe_test_device cfg env w of
        (Inl e', w') \<Rightarrow> (Inl e', w')
      | (Inr _, w') \<Rightarrow> (Inl e, w'))"

text \<open>What \<^verbatim>\<open>provision\<close> does before its \<^verbatim>\<open>try\<close> block: download and compress the
  image, find the local address, start \<^verbatim>\<open>serve_file\<close> in a process of its own and
  read the port from the queue. The result is the address and the port of the file
  server.\<close>

definition provision_setup :: "job_data \<Rightarrow> env \<Rightarrow> world \<Rightarrow> (exn + string \<times> nat) \<times> world" where
  "provision_setup job env w =
     (case provision_data job of
        None \<Rightarrow> (Inl (KeyError (Some ''provision_data'')), w)
      | Some pd \<Rightarrow>
          (case url pd of
             None \<Rightarrow> (Inl (ProvisioningError ''Error provisioning system''), w)
           | Some u \<Rightarrow>
               if u = [] then (Inl (ProvisioningError ''Error provisioning system''), w)
               else
                 (case download env u ''snappy.img'' w of
                    (Inl e, w1) \<Rightarrow> (Inl e, w1)
                  | (Inr _, w1) \<Rightarrow>
                      (case compress_file env ''snappy.img'' w1 of
                         (Inl e, w2) \<Rightarrow> (Inl e, w2)
                       | (Inr image_file, w2) \<Rightarrow>
                           (case get_local_ip_addr env w2 of
                              (Inl e, w3) \<Rightarrow> (Inl e, w3)
                            | (Inr server_ip, w3) \<Rightarrow>
                                (Inr (server_ip, bound_port env),
                                 emit QueueGet (emit (ServerStart image_file) w3)))))))"

definition provision :: "config \<Rightarrow> job_data \<Rightarrow> env \<Rightarrow> world \<Rightarrow> (exn + unit) \<times> world" where
  "provision cfg job env w =
     (case provision_setup job env w of
        (Inl e, w1) \<Rightarrow> (Inl e, w1)
      | (Inr (server_ip, server_port), w1) \<Rightarrow>
          (case provision_stages cfg env server_ip server_port
                  (job_test_username job) (job_test_password job) w1 of
             (Inl e, w2) \<Rightarrow> wipe_and_reraise cfg env e w2
           | (Inr _, w2) \<Rightarrow> (Inr (), w2)))"

section \<open>A lab configuration used to exercise the theorems\<close>

definition lab_config :: config where
  "lab_config =
     \<lparr>device_ip = Some ''10.0.0.2'', test_device = Some ''/dev/sda'',
      select_master_script = Some [''snmpset pdu1 boot master''],
      select_test_script = Some [''snmpset pdu1 boot test''],
      reboot_script = Some [''snmpset pdu1 outlet off'', ''snmpset pdu1 outlet on''],
      post_provision_script = None\<rparr>"

definition lab_env :: "(action list \<Rightarrow> string list \<Rightarrow> outcome) \<Rightarrow> env" where
  "lab_env r =
     \<lparr>respond = r, elapsed = (\<lambda>tr argv. 1), fetch = (\<lambda>url. Some [0x55, 0xAA]),
      local_ip = Some ''10.0.0.1'', bound_port = 40123, peer_open = (\<lambda>tr. True),
      json_loads = (\<lambda>decoded. None), gzip_rest = (\<lambda>data. data),
      xz_decode = (\<lambda>stream. None), lzma_decode = (\<lambda>stream. None)\<rparr>"

definition world0 :: world where
  "world0 = \<lparr>trace = [], now = 0, files = (\<lambda>name. None)\<rparr>"

text \<open>The master image answers on the control channel; nothing answers to the test
  image's probe.\<close>

definition master_env :: env where
  "master_env =
     lab_env (\<lambda>tr argv. if argv = ssh_argv ''ubuntu'' ''10.0.0.2'' ''snap -h'' then Failed []
                         else Completed ''Raspbian GNU/Linux 10'')"

text \<open>The unmount fails (nothing is mounted) and the sync runs into its timeout;
  every other command succeeds.\<close>

definition flaky_env :: env where
  "flaky_env =
     lab_env (\<lambda>tr argv.
        if argv = ssh_argv ''pi'' ''10.0.0.2'' (umount_cmd ''/dev/sda'')
        then Failed ''umount: not mounted''
        else if argv = ssh_argv ''pi'' ''10.0.0.2'' ''sync'' then TimedOut
        else Completed [])"

definition lab_job :: job_data where
  "lab_job =
     \<lparr>provision_data = Some \<lparr>url = Some ''http://images.lab/core.img''\<rparr>, test_data = None\<rparr>"

text \<open>The control host does not answer: every command runs into its timeout.\<close>

definition timeout_env :: env where
  "timeout_env = lab_env (\<lambda>tr argv. TimedOut)"

text \<open>Every command succeeds, but what \<^verbatim>\<open>lsblk\<close> prints is not JSON.\<close>

definition garbled_env :: env where
  "garbled_env = lab_env (\<lambda>tr argv. Completed ''lsblk: not a block device'')"

text \<open>A file server whose client reads everything, and a compressed image to serve.\<close>

definition served_env :: env where
  "served_env = lab_env (\<lambda>tr argv. Completed [])"


text \<open>\<^verbatim>\<open>lsblk\<close> (like every command) exits with an error.\<close>

definition no_lsblk_env :: env where
  "no_lsblk_env = lab_env (\<lambda>tr argv. Failed ''lsblk: /dev/sda: not a block device'')"

text \<open>A disk with two partitions: the first cannot be mounted, the second holds no
  marker; \<^verbatim>\<open>lsblk -J\<close> reports both, and the parser turns its report into the document
  it denotes.\<close>

definition lsblk_report :: string where
  \<open>lsblk_report =
     ''{"blockdevices": [{"name": "sda", "children": [{"name": "sda1"}, {"name": "sda2"}]}]}''\<close>

definition blank_disk_env :: env where
  "blank_disk_env =
     (lab_env (\<lambda>tr argv.
        if argv = ssh_argv ''pi'' ''10.0.0.2'' ''lsblk -J /dev/sda''
        then Completed lsblk_report
        else if argv = ssh_argv ''pi'' ''10.0.0.2'' ''sudo mount /dev/sda1 /mnt''
        then Failed ''mount: wrong fs type''
        else if argv = ssh_argv ''pi'' ''10.0.0.2'' ''ls /mnt''
        then Completed ''boot lost+found''
        else Completed []))
     \<lparr>json_loads := (\<lambda>decoded.
        if decoded = text_of lsblk_report
        then Some (Lsblk (Some [Blockdev (Some ''sda'')
               (Some [Blockdev (Some ''sda1'') None, Blockdev (Some ''sda2'') None])]))
        else None)\<rparr>"

text \<open>A device that answers neither probe until it has been power cycled, then comes
  up in the test image, and stops answering the test image's probe again: the probe
  for the test image succeeds exactly when the action before it was a probe for the
  master image; the probe for the master image always fails; the power switch works.\<close>

definition test_probe :: action where
  "test_probe = Exec (ssh_argv ''ubuntu'' ''10.0.0.2'' ''snap -h'') (Some 60)"

definition master_probe :: action where
  "master_probe = Exec (ssh_argv ''pi'' ''10.0.0.2'' ''cat /etc/issue'') (Some 60)"

definition stuck_env :: env where
  "stuck_env =
     lab_env (\<lambda>tr argv.
        if argv = ssh_argv ''ubuntu'' ''10.0.0.2'' ''snap -h''
        then (if tr \<noteq> [] \<and> last tr = master_probe then Completed [] else Failed [])
        else if argv = ssh_argv ''pi'' ''10.0.0.2'' ''cat /etc/issue'' then Failed []
        else Completed [])"

text \<open>A configuration that does not name the control host.\<close>

definition headless_config :: config where
  "headless_config = lab_config\<lparr>device_ip := None\<rparr>"


section \<open>Properties of the decoder\<close>

lemma utf8_decode_ascii: "\<forall>b\<in>set bs. b < 128 \<Longrightarrow> utf8_decode bs = Some bs"
  by (induction bs) simp_all

lemma py_decode_ascii: "\<forall>c\<in>set s. of_char c < (128::nat) \<Longrightarrow> py_decode s = Some (text_of s)"
  by (simp add: py_decode_def text_of_def utf8_decode_ascii)

text \<open>A no-break space, two bytes in UTF-8, separates names as a blank does.\<close>

lemma no_break_space_separates:
  "map_option split_text (py_decode (''etc'' @ [CHR 0xC2, CHR 0xA0] @ ''var''))
     = Some [text_of ''etc'', text_of ''var'']"
  by (simp add: py_decode_def split_text_def text_of_def is_whitespace_def is_cont_def)

section \<open>Properties of the boot-mode controller\<close>

text \<open>
  C9. \<^verbatim>\<open>setboot\<close> accepts the two modes \<^verbatim>\<open>"master"\<close> and \<^verbatim>\<open>"test"\<close> only: for every
  other mode it raises a bare \<^verbatim>\<open>KeyError\<close>, whatever the configuration holds (so
  before any script is looked up), and the world is unchanged (no command has run).
\<close>

theorem setboot_rejects_other_modes:
  "mode \<noteq> ''master'' \<Longrightarrow> mode \<noteq> ''test'' \<Longrightarrow> setboot cfg env mode w = (Inl (KeyError None), w)"
  by (simp add: setboot_def)

theorem setboot_rejects_other_modes_witness:
  "''Master'' \<noteq> ''master'' \<and> ''Master'' \<noteq> ''test''
   \<and> setboot lab_config (lab_env (\<lambda>tr argv. Completed [])) ''Master'' world0
       = (Inl (KeyError None), world0)"
  using setboot_rejects_other_modes [of "''Master''" lab_config "lab_env (\<lambda>tr argv. Completed [])" world0]
  by simp

section \<open>Properties of the image writer\<close>

text \<open>
  C7. When the configuration has no \<^verbatim>\<open>test_device\<close>, \<^verbatim>\<open>flash_test_image\<close> raises
  \<^verbatim>\<open>RecoveryError\<close> and leaves the world as it found it: no unmount, write or rescan
  command has been executed.
\<close>

theorem flash_test_image_missing_test_device:
  "test_device cfg = None \<Longrightarrow>
   flash_test_image cfg env server_ip server_port w
     = (Inl (RecoveryError ''Device config missing test_device''), w)"
  by (simp add: flash_test_image_def config_test_device_def)

theorem flash_test_image_missing_test_device_witness:
  "test_device (lab_config\<lparr>test_device := None\<rparr>) = None
   \<and> flash_test_image (lab_config\<lparr>test_device := None\<rparr>) (lab_env (\<lambda>tr argv. Completed []))
         ''10.0.0.1'' 40123 world0
       = (Inl (RecoveryError ''Device config missing test_device''), world0)"
  using flash_test_image_missing_test_device
          [of "lab_config\<lparr>test_device := None\<rparr>" "lab_env (\<lambda>tr argv. Completed [])"
              "''10.0.0.1''" 40123 world0]
  by simp

lemma run_control_no_KeyError:
  "device_ip cfg = Some ip \<Longrightarrow> run_control cfg env cmd t w = (r, w') \<Longrightarrow> r \<noteq> Inl (KeyError k)"
  by (auto simp: run_control_def check_output_def run_subprocess_def ssh_argv_def
           split: outcome.splits)

lemma run_control_fails_iff:
  "device_ip cfg = Some ip \<Longrightarrow>
   isl (fst (run_control cfg env cmd t w))
     = (\<forall>out. respond env (trace w) (ssh_argv ''pi'' ip cmd) \<noteq> Completed out)"
  by (auto simp: run_control_def check_output_def run_subprocess_def ssh_argv_def
           split: outcome.splits)

text \<open>
  C4, as the claim is written, fails: a failure of the unmount step can abort the
  flash. When the configuration does not name the control host, \<^verbatim>\<open>_run_control\<close> raises
  \<^verbatim>\<open>KeyError\<close> inside the \<^verbatim>\<open>try\<close> of the unmount, the clause \<^verbatim>\<open>except KeyError\<close> turns it
  into \<^verbatim>\<open>RecoveryError\<close>, and no later step runs.
\<close>

theorem flash_test_image_unmount_aborts_counterexample:
  "fst (run_control headless_config served_env (umount_cmd ''/dev/sda'') 30 world0)
     = Inl (KeyError (Some ''device_ip''))
   \<and> flash_test_image headless_config served_env ''10.0.0.1'' 40123 world0
     = (Inl (RecoveryError ''Device config missing test_device''), world0)"
  by (simp add: flash_test_image_def config_test_device_def run_control_def
        headless_config_def lab_config_def)

text \<open>
  C4, amended. In \<^verbatim>\<open>flash_test_image\<close>, when the configuration lacks \<^verbatim>\<open>device_ip\<close> or
  \<^verbatim>\<open>test_device\<close>, the unmount step raises \<^verbatim>\<open>KeyError\<close> and the method raises
  \<^verbatim>\<open>RecoveryError\<close> with no command run. When both are configured, let \<open>a\<close>, \<open>b\<close>, \<open>c\<close>
  and \<open>d\<close> be the results of the four \<^verbatim>\<open>ssh\<close> commands (unmount; the pipeline that
  reads from the network, decompresses and writes; sync; partition rescan), each run
  in the world its predecessor left (after a failed sync the method sleeps 30
  seconds). Such a command fails exactly when \<^verbatim>\<open>ssh\<close> does not end with exit status 0
  (another exit status, the timeout, or no start); for the pipeline this is the status
  that the remote shell reports for it. The result of the method depends on \<open>b\<close> and
  \<open>d\<close> only: a failure of \<open>b\<close> raises \<^verbatim>\<open>ProvisioningError\<close>; after a successful \<open>b\<close>, a
  failure of \<open>d\<close> raises \<^verbatim>\<open>ProvisioningError\<close>; otherwise the method returns in the
  world after the rescan. A failure of the command \<open>a\<close> or \<open>c\<close> is swallowed and the
  later steps still run.
\<close>

theorem flash_test_image_failures:
  "(device_ip cfg = None \<or> test_device cfg = None \<longrightarrow>
      flash_test_image cfg env server_ip server_port w
        = (Inl (RecoveryError ''Device config missing test_device''), w))
   \<and> (\<forall>dev ip a w1 b w2 c w3 d w4.
         test_device cfg = Some dev \<and> device_ip cfg = Some ip
         \<and> run_control cfg env (umount_cmd dev) 30 w = (a, w1)
         \<and> run_control cfg env (flash_cmd server_ip server_port dev) 1800 w1 = (b, w2)
         \<and> run_control cfg env ''sync'' 60 w2 = (c, w3)
         \<and> run_control cfg env (hdparm_cmd dev) 30 (if isl c then sleep 30 w3 else w3) = (d, w4)
         \<longrightarrow>
           isl b = (\<forall>out. respond env (trace w1)
                            (ssh_argv ''pi'' ip (flash_cmd server_ip server_port dev))
                          \<noteq> Completed out)
           \<and> flash_test_image cfg env server_ip server_port w =
               (if isl b
                then (Inl (ProvisioningError ''timeout reached while flashing image!''), w2)
                else if isl d
                then (Inl (ProvisioningError ''Unable to run hdparm to rescan partitions''), w4)
                else (Inr (), w4)))"
proof (intro conjI impI allI)
  assume m: "device_ip cfg = None \<or> test_device cfg = None"
  show "flash_test_image cfg env server_ip server_port w
        = (Inl (RecoveryError ''Device config missing test_device''), w)"
  proof (cases "test_device cfg")
    case None
    then show ?thesis by (simp add: flash_test_image_def config_test_device_def)
  next
    case (Some dev)
    with m have "device_ip cfg = None" by simp
    with Some show ?thesis
      by (simp add: flash_test_image_def config_test_device_def run_control_def)
  qed
next
  fix dev ip a w1 b w2 c w3 d w4
  assume h: "test_device cfg = Some dev \<and> device_ip cfg = Some ip
         \<and> run_control cfg env (umount_cmd dev) 30 w = (a, w1)
         \<and> run_control cfg env (flash_cmd server_ip server_port dev) 1800 w1 = (b, w2)
         \<and> run_control cfg env ''sync'' 60 w2 = (c, w3)
         \<and> run_control cfg env (hdparm_cmd dev) 30 (if isl c then sleep 30 w3 else w3) = (d, w4)"
  from h have td: "test_device cfg = Some dev" and ip: "device_ip cfg = Some ip"
    and ra: "run_control cfg env (umount_cmd dev) 30 w = (a, w1)"
    and rb: "run_control cfg env (flash_cmd server_ip server_port dev) 1800 w1 = (b, w2)"
    and rc: "run_control cfg env ''sync'' 60 w2 = (c, w3)"
    and rd: "run_control cfg env (hdparm_cmd dev) 30 (if isl c then sleep 30 w3 else w3) = (d, w4)"
    by simp_all
  have "isl (fst (run_control cfg env (flash_cmd server_ip server_port dev) 1800 w1))
     = (\<forall>out. respond env (trace w1) (ssh_argv ''pi'' ip (flash_cmd server_ip server_port dev))
           \<noteq> Completed out)"
    by (rule run_control_fails_iff[OF ip])
  then show "isl b = (\<forall>out. respond env (trace w1)
                            (ssh_argv ''pi'' ip (flash_cmd server_ip server_port dev))
                          \<noteq> Completed out)"
    by (simp add: rb)
  have nk: "\<And>k. a \<noteq> Inl (KeyError k)"
    using run_control_no_KeyError [OF ip ra] .
  show "flash_test_image cfg env server_ip server_port w =
               (if isl b
                then (Inl (ProvisioningError ''timeout reached while flashing image!''), w2)
                else if isl d
                then (Inl (ProvisioningError ''Unable to run hdparm to rescan partitions''), w4)
                else (Inr (), w4))"
    using td ra rb rc rd nk
    by (cases a; cases b; cases c; cases d)
       (auto simp: flash_test_image_def config_test_device_def split: exn.splits)
qed

theorem flash_test_image_failures_witness:
  "device_ip headless_config = None
   \<and> flash_test_image headless_config served_env ''10.0.0.1'' 40123 world0
       = (Inl (RecoveryError ''Device config missing test_device''), world0)
   \<and> test_device lab_config = Some ''/dev/sda'' \<and> device_ip lab_config = Some ''10.0.0.2''
   \<and> isl (fst (run_control lab_config flaky_env (umount_cmd ''/dev/sda'') 30 world0))
   \<and> fst (flash_test_image lab_config flaky_env ''10.0.0.1'' 40123 world0) = Inr ()"
proof -
  have hd: "device_ip headless_config = None"
    by (simp add: headless_config_def lab_config_def)
  have td: "test_device lab_config = Some ''/dev/sda''"
    and ip: "device_ip lab_config = Some ''10.0.0.2''"
    by (simp_all add: lab_config_def)
  have a: "isl (fst (run_control lab_config flaky_env (umount_cmd ''/dev/sda'') 30 world0))"
    by (simp add: run_control_def check_output_def run_subprocess_def ssh_argv_def
          lab_config_def flaky_env_def lab_env_def)
  let ?a = "run_control lab_config flaky_env (umount_cmd ''/dev/sda'') 30 world0"
  let ?b = "run_control lab_config flaky_env (flash_cmd ''10.0.0.1'' 40123 ''/dev/sda'') 1800 (snd ?a)"
  let ?c = "run_control lab_config flaky_env ''sync'' 60 (snd ?b)"
  let ?d = "run_control lab_config flaky_env (hdparm_cmd ''/dev/sda'') 30
              (if isl (fst ?c) then sleep 30 (snd ?c) else snd ?c)"
  have first: "flash_test_image headless_config served_env ''10.0.0.1'' 40123 world0
       = (Inl (RecoveryError ''Device config missing test_device''), world0)"
    by (rule flash_test_image_failures [THEN conjunct1, rule_format]) (simp add: hd)
  have hyp: "test_device lab_config = Some ''/dev/sda'' \<and> device_ip lab_config = Some ''10.0.0.2''
         \<and> ?a = (fst ?a, snd ?a) \<and> ?b = (fst ?b, snd ?b) \<and> ?c = (fst ?c, snd ?c)
         \<and> ?d = (fst ?d, snd ?d)"
    by (simp add: td ip)
  have "flash_test_image lab_config flaky_env ''10.0.0.1'' 40123 world0 =
               (if isl (fst ?b)
                then (Inl (ProvisioningError ''timeout reached while flashing image!''), snd ?b)
                else if isl (fst ?d)
                then (Inl (ProvisioningError ''Unable to run hdparm to rescan partitions''), snd ?d)
                else (Inr (), snd ?d))"
    by (rule flash_test_image_failures [THEN conjunct2, rule_format, THEN conjunct2, OF hyp])
  moreover have "\<not> isl (fst ?b)" "\<not> isl (fst ?d)"
    by (simp_all add: run_control_def check_output_def run_subprocess_def ssh_argv_def
          lab_config_def flaky_env_def lab_env_def world0_def sleep_def
          umount_cmd_def flash_cmd_def hdparm_cmd_def)
  ultimately have "fst (flash_test_image lab_config flaky_env ''10.0.0.1'' 40123 world0) = Inr ()"
    by simp
  with hd first td ip a show ?thesis by simp
qed

section \<open>Properties of the recovery\<close>

text \<open>
  C10. When the first probe for the test image says no and the first probe for the
  master image says yes, \<^verbatim>\<open>ensure_master_image\<close> returns normally (at every bound of
  at least one on the depth of self-calls), and the two probes are the only actions it
  has added to the trace: no boot-mode switch and no power cycle has run.
\<close>

theorem ensure_master_image_already_master:
  assumes "is_test_image_booted cfg env w = (Inr False, w1)"
      and "is_master_image_booted cfg env w1 = (True, w2)"
  shows "ensure_master_image (Suc depth) cfg env w = Some (Inr (), w2)
         \<and> (\<exists>ip. device_ip cfg = Some ip
              \<and> trace w2 = trace w @ [Exec (ssh_argv ''ubuntu'' ip ''snap -h'') (Some 60),
                                       Exec (ssh_argv ''pi'' ip ''cat /etc/issue'') (Some 60)])"
proof -
  from assms(1) obtain ip where ip: "device_ip cfg = Some ip"
    and t1: "trace w1 = trace w @ [Exec (ssh_argv ''ubuntu'' ip ''snap -h'') (Some 60)]"
    by (auto simp: is_test_image_booted_def check_output_def run_subprocess_def ssh_argv_def
             split: option.splits outcome.splits)
  from assms(2) ip
  have t2: "trace w2 = trace w1 @ [Exec (ssh_argv ''pi'' ip ''cat /etc/issue'') (Some 60)]"
    by (auto simp: is_master_image_booted_def run_control_def check_output_def
                   run_subprocess_def ssh_argv_def
             split: option.splits outcome.splits)
  have "ensure_master_image (Suc depth) cfg env w = Some (Inr (), w2)"
    using assms by (simp add: recover_unknown_def)
  with ip t1 t2 show ?thesis by simp
qed

theorem ensure_master_image_already_master_witness:
  "is_test_image_booted lab_config master_env world0
     = (Inr False, \<lparr>trace = [Exec (ssh_argv ''ubuntu'' ''10.0.0.2'' ''snap -h'') (Some 60)],
                    now = 1, files = (\<lambda>name. None)\<rparr>)
   \<and> ensure_master_image 1 lab_config master_env world0
     = Some (Inr (), \<lparr>trace = [Exec (ssh_argv ''ubuntu'' ''10.0.0.2'' ''snap -h'') (Some 60),
                              Exec (ssh_argv ''pi'' ''10.0.0.2'' ''cat /etc/issue'') (Some 60)],
                      now = 2, files = (\<lambda>name. None)\<rparr>)"
proof -
  let ?w1 = "\<lparr>trace = [Exec (ssh_argv ''ubuntu'' ''10.0.0.2'' ''snap -h'') (Some 60)],
              now = 1, files = (\<lambda>name. None)\<rparr>"
  let ?w2 = "\<lparr>trace = [Exec (ssh_argv ''ubuntu'' ''10.0.0.2'' ''snap -h'') (Some 60),
                       Exec (ssh_argv ''pi'' ''10.0.0.2'' ''cat /etc/issue'') (Some 60)],
              now = 2, files = (\<lambda>name. None)\<rparr>"
  have a: "is_test_image_booted lab_config master_env world0 = (Inr False, ?w1)"
    by (simp add: is_test_image_booted_def check_output_def run_subprocess_def ssh_argv_def
          lab_config_def master_env_def lab_env_def world0_def)
  have b: "is_master_image_booted lab_config master_env ?w1 = (True, ?w2)"
    by (simp add: is_master_image_booted_def run_control_def check_output_def
          run_subprocess_def ssh_argv_def lab_config_def master_env_def lab_env_def world0_def)
  show ?thesis using ensure_master_image_already_master [OF a b, of 0] a by simp
qed

section \<open>Properties of the provisioning run\<close>

lemma wipe_test_device_never_raises: "fst (wipe_test_device cfg env w) = Inr ()"
  by (simp add: wipe_test_device_def split: prod.split sum.split)

text \<open>
  C5. When the stages inside the \<^verbatim>\<open>try\<close> block of \<^verbatim>\<open>provision\<close> (flashing, inspecting,
  seeding, post-provision script, booting the test image) raise an exception \<open>e\<close>,
  \<^verbatim>\<open>provision\<close> calls \<^verbatim>\<open>wipe_test_device\<close>, which never raises, and then raises exactly
  \<open>e\<close>; with the control host and the target device configured, the wipe command is
  the last action of the run.
\<close>

theorem provision_reraises:
  assumes "provision_setup job env w = (Inr (server_ip, server_port), w1)"
      and "provision_stages cfg env server_ip server_port
             (job_test_username job) (job_test_password job) w1 = (Inl e, w2)"
  shows "provision cfg job env w = (Inl e, snd (wipe_test_device cfg env w2))
         \<and> fst (wipe_test_device cfg env w2) = Inr ()
         \<and> (\<forall>dev ip. test_device cfg = Some dev \<and> device_ip cfg = Some ip \<longrightarrow>
               trace (snd (wipe_test_device cfg env w2)) =
                 trace w2 @ [Exec (ssh_argv ''pi'' ip (''sudo wipefs -af '' @ dev)) (Some 60)])"
proof -
  have 1: "fst (wipe_test_device cfg env w2) = Inr ()"
    by (rule wipe_test_device_never_raises)
  have 2: "provision cfg job env w = (Inl e, snd (wipe_test_device cfg env w2))"
    using assms 1 by (cases "wipe_test_device cfg env w2") (simp add: provision_def wipe_and_reraise_def)
  have 3: "trace (snd (wipe_test_device cfg env w2)) =
                 trace w2 @ [Exec (ssh_argv ''pi'' ip (''sudo wipefs -af '' @ dev)) (Some 60)]"
    if "test_device cfg = Some dev" "device_ip cfg = Some ip" for dev ip
    using that
    by (simp add: wipe_test_device_def config_test_device_def run_control_def check_output_def
          run_subprocess_def ssh_argv_def split: outcome.split)
  from 1 2 3 show ?thesis by blast
qed

theorem provision_reraises_witness:
  "fst (provision_stages lab_config garbled_env ''10.0.0.1'' 40123 ''ubuntu'' ''ubuntu''
          (snd (provision_setup lab_job garbled_env world0))) = Inl JSONDecodeError
   \<and> fst (provision lab_config lab_job garbled_env world0) = Inl JSONDecodeError
   \<and> last (trace (snd (provision lab_config lab_job garbled_env world0)))
       = Exec (ssh_argv ''pi'' ''10.0.0.2'' ''sudo wipefs -af /dev/sda'') (Some 60)"
proof -
  let ?w1 = "snd (provision_setup lab_job garbled_env world0)"
  let ?st = "provision_stages lab_config garbled_env ''10.0.0.1'' 40123
               (job_test_username lab_job) (job_test_password lab_job) ?w1"
  have u: "job_test_username lab_job = ''ubuntu''" "job_test_password lab_job = ''ubuntu''"
    by (simp_all add: job_test_username_def job_test_password_def lab_job_def)
  have "fst (provision_setup lab_job garbled_env world0) = Inr (''10.0.0.1'', 40123)"
    by (simp add: provision_setup_def download_def compress_file_def get_local_ip_addr_def
          emit_def lab_job_def garbled_env_def lab_env_def world0_def Let_def)
  then have a: "provision_setup lab_job garbled_env world0 = (Inr (''10.0.0.1'', 40123), ?w1)"
    by (simp add: prod_eq_iff)
  have fs: "fst ?st = Inl JSONDecodeError"
    by (simp add: u provision_stages_def flash_test_image_def get_image_type_def
          config_test_device_def run_control_def check_output_def run_subprocess_def
          emit_def lab_config_def garbled_env_def lab_env_def py_decode_ascii
          umount_cmd_def flash_cmd_def hdparm_cmd_def ssh_argv_def digit_char_def)
  from fs have b: "?st = (Inl JSONDecodeError, snd ?st)"
    by (simp add: prod_eq_iff)
  have c: "test_device lab_config = Some ''/dev/sda'' \<and> device_ip lab_config = Some ''10.0.0.2''"
    by (simp add: lab_config_def)
  show ?thesis
    using provision_reraises [OF a b] fs c u by simp
qed

text \<open>
  C6. The claim asks that the file server is torn down whenever the flash step fails.
  In \<^verbatim>\<open>provision\<close> the call \<^verbatim>\<open>file_server.terminate()\<close> follows \<^verbatim>\<open>flash_test_image\<close>
  inside the \<^verbatim>\<open>try\<close> block, so a failing flash skips it. Here the control host does
  not answer: the flash command runs into its timeout, the run ends with
  \<^verbatim>\<open>ProvisioningError\<close>, and the trace holds the start of the server process but no
  \<open>ServerTerminate\<close>.
\<close>

theorem provision_flash_timeout_keeps_server:
  "fst (provision lab_config lab_job timeout_env world0) =
     Inl (ProvisioningError ''timeout reached while flashing image!'')
   \<and> trace (snd (provision lab_config lab_job timeout_env world0)) =
         [Download ''http://images.lab/core.img'' ''snappy.img'', LocalIp,
          ServerStart ''snappy.img.gz'', QueueGet,
          Exec (ssh_argv ''pi'' ''10.0.0.2'' ''sudo umount /dev/sda*'') (Some 30),
          Exec (ssh_argv ''pi'' ''10.0.0.2''
                  ''nc.traditional 10.0.0.1 40123| xzcat| sudo dd of=/dev/sda bs=16M'') (Some 1800),
          Exec (ssh_argv ''pi'' ''10.0.0.2'' ''sudo wipefs -af /dev/sda'') (Some 60)]"
  by (simp add: provision_def provision_setup_def provision_stages_def wipe_and_reraise_def
        wipe_test_device_def flash_test_image_def config_test_device_def run_control_def
        check_output_def run_subprocess_def download_def compress_file_def get_local_ip_addr_def
        emit_def lab_config_def lab_job_def timeout_env_def lab_env_def world0_def
        umount_cmd_def flash_cmd_def ssh_argv_def digit_char_def Let_def)

section \<open>Properties of the file server and of the transfer\<close>

lemma read_buf_Nil: "take n content = [] \<Longrightarrow> read_buf n content = []"
  by (subst read_buf.simps) simp

lemma read_buf_Cons:
  "take n content \<noteq> [] \<Longrightarrow> read_buf n content = take n content # read_buf n (drop n content)"
  by (subst read_buf.simps) simp

lemma send_file_done: "take chunk_size content = [] \<Longrightarrow> send_file env content w = (Inr (), w)"
  by (subst send_file.simps) (simp add: Let_def)

lemma send_file_more:
  "take chunk_size content \<noteq> [] \<Longrightarrow> peer_open env (trace w) \<Longrightarrow>
   send_file env content w =
     send_file env (drop chunk_size content) (emit (SocketSend (take chunk_size content)) w)"
  by (subst send_file.simps) (simp add: Let_def)

lemma send_file_broken:
  "take chunk_size content \<noteq> [] \<Longrightarrow> \<not> peer_open env (trace w) \<Longrightarrow>
   send_file env content w = (Inl OSError, emit (SocketSend (take chunk_size content)) w)"
  by (subst send_file.simps) (simp add: Let_def)

lemma send_file_trace:
  "\<exists>k. trace (snd (send_file env content w))
          = trace w @ map SocketSend (take k (read_buf chunk_size content))
      \<and> (fst (send_file env content w) = Inr () \<longrightarrow> length (read_buf chunk_size content) \<le> k)"
proof (induction env content w rule: send_file.induct)
  case (1 env content w)
  let ?data = "take chunk_size content"
  let ?w' = "emit (SocketSend ?data) w"
  let ?rest = "drop chunk_size content"
  show ?case
  proof (cases "?data = []")
    case True
    have "trace (snd (send_file env content w))
          = trace w @ map SocketSend (take 0 (read_buf chunk_size content))
      \<and> (fst (send_file env content w) = Inr () \<longrightarrow> length (read_buf chunk_size content) \<le> 0)"
      by (simp add: send_file_done[OF True] read_buf_Nil[OF True])
    then show ?thesis by (rule exI)
  next
    case False
    note ne = False
    show ?thesis
    proof (cases "peer_open env (trace w)")
      case True
      from "1.IH"[OF refl ne True]
      obtain k where s1: "trace (snd (send_file env ?rest ?w'))
          = trace ?w' @ map SocketSend (take k (read_buf chunk_size ?rest))"
        and s2: "fst (send_file env ?rest ?w') = Inr ()
          \<longrightarrow> length (read_buf chunk_size ?rest) \<le> k"
        by blast
      have t: "trace ?w' = trace w @ [SocketSend ?data]" by (simp add: emit_def)
      have "trace (snd (send_file env content w))
          = trace w @ map SocketSend (take (Suc k) (read_buf chunk_size content))
        \<and> (fst (send_file env content w) = Inr () \<longrightarrow> length (read_buf chunk_size content) \<le> Suc k)"
        using s2 by (simp add: send_file_more[OF ne True] read_buf_Cons[OF ne] s1 t)
      then show ?thesis by (rule exI)
    next
      case False
      have "trace (snd (send_file env content w))
          = trace w @ map SocketSend (take (Suc 0) (read_buf chunk_size content))
        \<and> (fst (send_file env content w) = Inr () \<longrightarrow> length (read_buf chunk_size content) \<le> Suc 0)"
        by (simp add: send_file_broken[OF ne False] read_buf_Cons[OF ne] emit_def)
      then show ?thesis by (rule exI)
    qed
  qed
qed



lemma read_buf_pieces: "data \<in> set (read_buf n content) \<Longrightarrow> data \<noteq> [] \<and> length data \<le> n"
proof (induction n content rule: read_buf.induct)
  case (1 n content)
  show ?case
  proof (cases "take n content = []")
    case True
    with 1(2) show ?thesis by (simp only: read_buf_Nil) simp
  next
    case False
    from 1(2) have "data = take n content \<or> data \<in> set (read_buf n (drop n content))"
      by (simp only: read_buf_Cons[OF False] set_simps insert_iff)
    then show ?thesis
    proof
      assume "data = take n content"
      with False show ?thesis by simp
    next
      assume "data \<in> set (read_buf n (drop n content))"
      then show ?thesis by (rule 1(1)[OF False])
    qed
  qed
qed







lemma dict_sizes:
  "\<forall>n\<in>set [0..<32]. (2::nat) ^ n mod 256 \<noteq> 139 \<and> ((2::nat) ^ n + 2 ^ (n - 1)) mod 256 \<noteq> 139"
  by (simp add: upt_rec)

lemma dict_size_ok_mod: "dict_size_ok d \<Longrightarrow> d mod 256 \<noteq> 139"
proof -
  assume "dict_size_ok d"
  then consider "d = 2 ^ 32 - 1" | n where "n \<in> set [0..<32]" "d = 2 ^ n \<or> d = 2 ^ n + 2 ^ (n - 1)"
    unfolding dict_size_ok_def by auto
  then show ?thesis
  proof cases
    case 1
    then show ?thesis by simp
  next
    case 2
    with dict_sizes show ?thesis by blast
  qed
qed

lemma sent_bytes_append: "sent_bytes (tr @ tr') = sent_bytes tr @ sent_bytes tr'"
  by (induction tr rule: sent_bytes.induct) simp_all

lemma sent_bytes_sends: "sent_bytes (map SocketSend sent) = concat sent"
  by (induction sent) simp_all

lemma gzip_not_xz: "\<not> is_format_xz (0x1f # tail)"
  by (simp add: is_format_xz_def xz_magic_def)

lemma le_nat_mod: "le_nat (b # bs) mod 256 = unat b mod 256"
  by simp

lemma gzip_not_lzma: "\<not> is_format_lzma (0x1f # 0x8b # 0x08 # tail)"
proof
  assume "is_format_lzma (0x1f # 0x8b # 0x08 # tail)"
  then have "dict_size_ok (le_nat (take 4 (0x8b # 0x08 # tail)))"
    by (simp add: is_format_lzma_def)
  then have neq: "le_nat (take 4 (0x8b # 0x08 # tail)) mod 256 \<noteq> 139"
    by (rule dict_size_ok_mod)
  have e: "take 4 (0x8b # 0x08 # tail) = 0x8b # take 3 (0x08 # tail)"
    by simp
  have "le_nat (take 4 (0x8b # 0x08 # tail)) mod 256 = unat (0x8b :: byte) mod 256"
    unfolding e by (rule le_nat_mod)
  also have "\<dots> = 139" by simp
  finally have eq: "le_nat (take 4 (0x8b # 0x08 # tail)) mod 256 = 139" .
  from neq eq show False by (rule notE)
qed

lemma xzcat_gzip: "xzcat env (0x1f # 0x8b # 0x08 # tail) = Inl FormatError"
  by (simp only: xzcat_def gzip_not_xz gzip_not_lzma if_False)

lemma xzcat_empty: "xzcat env [] = Inl FormatError"
  by (simp add: xzcat_def is_format_xz_def xz_magic_def is_format_lzma_def)


lemma gz_first_piece:
  "take chunk_size (0x1f # 0x8b # 0x08 # rest) = 0x1f # 0x8b # 0x08 # take (chunk_size - 3) rest"
  by (simp add: chunk_size_def)

lemma wire_shape:
  "concat (take k (read_buf chunk_size (0x1f # 0x8b # 0x08 # rest))) = []
   \<or> (\<exists>tail. concat (take k (read_buf chunk_size (0x1f # 0x8b # 0x08 # rest)))
               = 0x1f # 0x8b # 0x08 # tail)"
proof (cases k)
  case 0
  then show ?thesis by simp
next
  case (Suc k')
  have ne: "take chunk_size (0x1f # 0x8b # 0x08 # rest) \<noteq> []"
    by (simp only: gz_first_piece) simp
  show ?thesis
    by (rule disjI2) (simp add: Suc read_buf_Cons[OF ne] gz_first_piece)
qed

lemma flash_pipeline_gzip:
  "wire = [] \<or> (\<exists>tail. wire = 0x1f # 0x8b # 0x08 # tail) \<Longrightarrow> flash_pipeline env wire device = device"
  by (auto simp: flash_pipeline_def xzcat_gzip xzcat_empty dd_of_def)

text \<open>The pipeline does write what \<^verbatim>\<open>xzcat\<close> decodes: a stream in the .xz container
  ends up on the device.\<close>

lemma flash_pipeline_xz:
  "is_format_xz stream \<Longrightarrow> xz_decode env stream = Some content \<Longrightarrow>
   flash_pipeline env stream device = content @ drop (length content) device"
  by (simp add: flash_pipeline_def xzcat_def dd_of_def)

text \<open>
  C1. The claim asks that the image arrives on the device byte for byte.
  \<^verbatim>\<open>compress_file\<close> writes a gzip member (its docstring: "Gzip the specified file"),
  while the command of \<^verbatim>\<open>flash_test_image\<close> decompresses with \<^verbatim>\<open>xzcat\<close>. Whatever
  \<^verbatim>\<open>serve_file\<close> sends is empty or starts with \<^verbatim>\<open>1f 8b 08\<close>, which is neither the
  magic of an .xz stream nor a plausible .lzma header, so \<^verbatim>\<open>xzcat\<close> refuses it and
  \<^verbatim>\<open>dd\<close> writes nothing: for every image, the device holds afterwards what it held
  before.
\<close>

theorem transfer_image_leaves_device:
  "transfer_image env img device = device"
proof -
  let ?gz = "gzip_member env (concat (read_buf 4096 img))"
  let ?w0 = "\<lparr>trace = [], now = 0, files = (\<lambda>name. None)(''snappy.img'' := Some img)\<rparr>"
  let ?w1 = "?w0\<lparr>files := ((files ?w0)(''snappy.img.gz'' := Some ?gz))(''snappy.img'' := None)\<rparr>"
  have c: "compress_file env ''snappy.img'' ?w0 = (Inr ''snappy.img.gz'', ?w1)"
    by (simp add: compress_file_def Let_def)
  have f: "files ?w1 ''snappy.img.gz'' = Some ?gz" by simp
  let ?w2 = "emit (FileOpen ''snappy.img.gz'') (emit SocketAccept (emit (SocketListen 1)
               (emit (QueuePut (bound_port env)) (emit GetSockName (emit (SocketBind ''0.0.0.0'' 0) ?w1)))))"
  let ?r = "send_file env ?gz ?w2"
  obtain k where k: "trace (snd ?r) = trace ?w2 @ map SocketSend (take k (read_buf chunk_size ?gz))"
    using send_file_trace[of env ?gz ?w2] by blast
  have sf: "serve_file env ''snappy.img.gz'' ?w1 =
          (case ?r of (Inl e, w3) \<Rightarrow> (Inl e, w3)
                    | (Inr u, w3) \<Rightarrow> (Inr (), emit ServerClose (emit ClientClose w3)))"
    using f by (simp add: serve_file_def Let_def)
  have "sent_bytes (trace (snd (serve_file env ''snappy.img.gz'' ?w1))) = sent_bytes (trace (snd ?r))"
    unfolding sf by (cases ?r; cases "fst ?r") (auto simp: emit_def sent_bytes_append)
  also have "\<dots> = concat (take k (read_buf chunk_size ?gz))"
    by (simp only: k) (simp add: emit_def sent_bytes_append sent_bytes_sends)
  finally have wire: "sent_bytes (trace (snd (serve_file env ''snappy.img.gz'' ?w1)))
      = concat (take k (read_buf chunk_size ?gz))" .
  have shape: "concat (take k (read_buf chunk_size ?gz)) = []
     \<or> (\<exists>tail. concat (take k (read_buf chunk_size ?gz)) = 0x1f # 0x8b # 0x08 # tail)"
    unfolding gzip_member_def append_Cons append_Nil by (rule wire_shape)
  have "transfer_image env img device =
          flash_pipeline env (sent_bytes (trace (snd (serve_file env ''snappy.img.gz'' ?w1)))) device"
    by (simp add: transfer_image_def c split: prod.split)
  also have "\<dots> = device"
    unfolding wire using shape by (rule flash_pipeline_gzip)
  finally show ?thesis .
qed

section \<open>Properties of the image inspector\<close>

text \<open>
  C3, as the claim is written, fails: \<^verbatim>\<open>get_image_type\<close> runs \<^verbatim>\<open>lsblk\<close> and parses
  its output outside the \<^verbatim>\<open>try\<close> block of the loop, so when the \<^verbatim>\<open>lsblk\<close> command
  exits with an error, no marker has matched on any partition and the method raises
  the \<^verbatim>\<open>ProvisioningError\<close> of \<^verbatim>\<open>_run_control\<close>.
\<close>

theorem get_image_type_raises_counterexample:
  "fst (get_image_type lab_config no_lsblk_env world0)
     = Inl (ProvisioningError ''lsblk: /dev/sda: not a block device'')"
  by (simp add: get_image_type_def config_test_device_def run_control_def check_output_def
        run_subprocess_def ssh_argv_def lab_config_def no_lsblk_env_def lab_env_def)

lemma run_control_output:
  "run_control cfg env cmd t w = (Inr out, w') \<Longrightarrow>
   \<exists>ip. device_ip cfg = Some ip \<and> respond env (trace w) (ssh_argv ''pi'' ip cmd) = Completed out"
  by (auto simp: run_control_def check_output_def run_subprocess_def ssh_argv_def
           split: option.splits outcome.splits)

lemma match_image_type_None:
  "text_of ''etc'' \<notin> set (split_text decoded) \<and> text_of ''system-data'' \<notin> set (split_text decoded)
     \<and> text_of ''snaps'' \<notin> set (split_text decoded)
   \<Longrightarrow> match_image_type decoded = None"
  by (simp add: match_image_type_def IMAGE_PATH_IDS_def)

lemma check_partition_no_marker:
  assumes "\<forall>tr ip dirs decoded. device_ip cfg = Some ip \<longrightarrow>
             respond env tr (ssh_argv ''pi'' ip ''ls /mnt'') = Completed dirs \<longrightarrow>
             py_decode dirs = Some decoded \<longrightarrow>
             text_of ''etc'' \<notin> set (split_text decoded)
             \<and> text_of ''system-data'' \<notin> set (split_text decoded)
             \<and> text_of ''snaps'' \<notin> set (split_text decoded)"
  shows "fst (check_partition cfg env d w) = None"
proof (cases "run_control cfg env (''sudo mount /dev/'' @ d @ '' '' @ ''/mnt'') 60 w")
  case (Pair m w1)
  show ?thesis
  proof (cases m)
    case (Inl e)
    with Pair show ?thesis by (simp add: check_partition_def remote_mount_def)
  next
    case (Inr mounted)
    show ?thesis
    proof (cases "run_control cfg env ''ls /mnt'' 60 w1")
      case ls: (Pair l w2)
      show ?thesis
      proof (cases "run_control cfg env (''sudo umount '' @ ''/mnt'') 60 w2")
        case um: (Pair u w3)
        show ?thesis
        proof (cases l)
          case (Inl e)
          with Pair Inr ls um show ?thesis
            by (cases u) (simp_all add: check_partition_def remote_mount_def)
        next
          case r: (Inr dirs)
          show ?thesis
          proof (cases "py_decode dirs")
            case None
            with Pair Inr ls um r show ?thesis
              by (cases u) (simp_all add: check_partition_def remote_mount_def)
          next
            case (Some decoded)
            from run_control_output[OF ls[unfolded r]] assms Some
            have "text_of ''etc'' \<notin> set (split_text decoded)
                  \<and> text_of ''system-data'' \<notin> set (split_text decoded)
                  \<and> text_of ''snaps'' \<notin> set (split_text decoded)" by blast
            then have "match_image_type decoded = None" by (rule match_image_type_None)
            with Pair Inr ls um r Some show ?thesis
              by (cases u) (simp_all add: check_partition_def remote_mount_def)
          qed
        qed
      qed
    qed
  qed
qed

lemma scan_partitions_no_marker:
  assumes "\<forall>tr ip dirs decoded. device_ip cfg = Some ip \<longrightarrow>
             respond env tr (ssh_argv ''pi'' ip ''ls /mnt'') = Completed dirs \<longrightarrow>
             py_decode dirs = Some decoded \<longrightarrow>
             text_of ''etc'' \<notin> set (split_text decoded)
             \<and> text_of ''system-data'' \<notin> set (split_text decoded)
             \<and> text_of ''snaps'' \<notin> set (split_text decoded)"
  shows "fst (scan_partitions cfg env ds d w) = (''unknown'', last (d # ds))"
proof (induction ds arbitrary: d w)
  case Nil
  show ?case by simp
next
  case (Cons x xs)
  obtain r w' where c: "check_partition cfg env x w = (r, w')" by (cases "check_partition cfg env x w")
  with check_partition_no_marker[OF assms, of x w] have "r = None" by simp
  with c have "scan_partitions cfg env (x # xs) d w = scan_partitions cfg env xs x w'" by simp
  with Cons.IH[of x w'] show ?case by simp
qed

text \<open>
  C3, amended. Let the target device be configured, and let no successful listing of
  a mounted partition, once decoded, hold one of the markers \<^verbatim>\<open>etc\<close>, \<^verbatim>\<open>system-data\<close>,
  \<^verbatim>\<open>snaps\<close> among its names. When the \<^verbatim>\<open>lsblk\<close> command raises, \<^verbatim>\<open>get_image_type\<close> raises
  the same exception in the same world. When the \<^verbatim>\<open>lsblk\<close> command succeeds, its output
  decodes and parses to a document whose first block device has a list of children
  with at least one named child, then, whatever the mount, listing and unmount
  commands do, \<^verbatim>\<open>get_image_type\<close> raises nothing and returns \<^verbatim>\<open>"unknown"\<close> paired with
  the name of the last named child.
\<close>

theorem get_image_type_unknown:
  assumes "test_device cfg = Some dev"
    and "\<forall>tr ip dirs decoded. device_ip cfg = Some ip \<longrightarrow>
             respond env tr (ssh_argv ''pi'' ip ''ls /mnt'') = Completed dirs \<longrightarrow>
             py_decode dirs = Some decoded \<longrightarrow>
             text_of ''etc'' \<notin> set (split_text decoded)
             \<and> text_of ''system-data'' \<notin> set (split_text decoded)
             \<and> text_of ''snaps'' \<notin> set (split_text decoded)"
  shows "(\<forall>e w1. run_control cfg env (''lsblk -J '' @ dev) 60 w = (Inl e, w1)
            \<longrightarrow> get_image_type cfg env w = (Inl e, w1))
       \<and> (\<forall>lsblk_data w1 decoded lsblk_json first others children.
            run_control cfg env (''lsblk -J '' @ dev) 60 w = (Inr lsblk_data, w1)
            \<and> py_decode lsblk_data = Some decoded
            \<and> json_loads env decoded = Some lsblk_json
            \<and> blockdevices lsblk_json = Some (first # others)
            \<and> bd_children first = Some children
            \<and> child_names children \<noteq> []
            \<longrightarrow> fst (get_image_type cfg env w)
                  = Inr (''unknown'', last (child_names children)))"
proof (intro conjI allI impI)
  fix e w1
  assume "run_control cfg env (''lsblk -J '' @ dev) 60 w = (Inl e, w1)"
  with assms(1) show "get_image_type cfg env w = (Inl e, w1)"
    by (simp add: get_image_type_def config_test_device_def)
next
  fix lsblk_data w1 decoded lsblk_json first others children
  assume h: "run_control cfg env (''lsblk -J '' @ dev) 60 w = (Inr lsblk_data, w1)
            \<and> py_decode lsblk_data = Some decoded
            \<and> json_loads env decoded = Some lsblk_json
            \<and> blockdevices lsblk_json = Some (first # others)
            \<and> bd_children first = Some children
            \<and> child_names children \<noteq> []"
  have "fst (scan_partitions cfg env (child_names children) dev w1)
          = (''unknown'', last (dev # child_names children))"
    by (rule scan_partitions_no_marker[OF assms(2)])
  with h have s: "fst (scan_partitions cfg env (child_names children) dev w1)
          = (''unknown'', last (child_names children))" by simp
  show "fst (get_image_type cfg env w) = Inr (''unknown'', last (child_names children))"
    using assms(1) h s
    by (cases "scan_partitions cfg env (child_names children) dev w1")
       (simp add: get_image_type_def config_test_device_def)
qed

lemma lsblk_report_ascii: "\<forall>c\<in>set lsblk_report. of_char c < (128::nat)"
  by (simp add: lsblk_report_def)

theorem get_image_type_unknown_witness:
  "test_device lab_config = Some ''/dev/sda''
   \<and> fst (run_control lab_config blank_disk_env ''lsblk -J /dev/sda'' 60 world0)
       = Inr lsblk_report
   \<and> py_decode lsblk_report = Some (text_of lsblk_report)
   \<and> py_decode ''boot lost+found'' = Some (text_of ''boot lost+found'')
   \<and> split_text (text_of ''boot lost+found'') = [text_of ''boot'', text_of ''lost+found'']
   \<and> child_names [Blockdev (Some ''sda1'') None, Blockdev (Some ''sda2'') None] = [''sda1'', ''sda2'']
   \<and> fst (get_image_type lab_config blank_disk_env world0) = Inr (''unknown'', ''sda2'')
   \<and> fst (run_control lab_config no_lsblk_env ''lsblk -J /dev/sda'' 60 world0)
       = Inl (ProvisioningError ''lsblk: /dev/sda: not a block device'')
   \<and> fst (get_image_type lab_config no_lsblk_env world0)
       = Inl (ProvisioningError ''lsblk: /dev/sda: not a block device'')"
proof -
  let ?doc = "Lsblk (Some [Blockdev (Some ''sda'')
          (Some [Blockdev (Some ''sda1'') None, Blockdev (Some ''sda2'') None])])"
  let ?children = "[Blockdev (Some ''sda1'') None, Blockdev (Some ''sda2'') None]"
  let ?rc = "run_control lab_config blank_disk_env (''lsblk -J '' @ ''/dev/sda'') 60 world0"
  let ?rn = "run_control lab_config no_lsblk_env (''lsblk -J '' @ ''/dev/sda'') 60 world0"
  have td: "test_device lab_config = Some ''/dev/sda''" by (simp add: lab_config_def)
  have f: "fst (run_control lab_config blank_disk_env ''lsblk -J /dev/sda'' 60 world0)
             = Inr lsblk_report"
    by (simp add: run_control_def check_output_def run_subprocess_def ssh_argv_def
          lab_config_def blank_disk_env_def lab_env_def)
  then have rc: "?rc = (Inr lsblk_report, snd ?rc)"
    by (simp add: prod_eq_iff)
  have dec: "py_decode lsblk_report = Some (text_of lsblk_report)"
    by (rule py_decode_ascii[OF lsblk_report_ascii])
  have js: "json_loads blank_disk_env (text_of lsblk_report) = Some ?doc"
    by (simp add: blank_disk_env_def lab_env_def)
  have bd: "blockdevices ?doc = Some (Blockdev (Some ''sda'') (Some ?children) # [])" by simp
  have ch: "bd_children (Blockdev (Some ''sda'') (Some ?children)) = Some ?children" by simp
  have cn: "child_names ?children = [''sda1'', ''sda2'']"
    by (simp add: child_names_def List.map_filter_simps)
  then have ne: "child_names ?children \<noteq> []" by simp
  have ls: "py_decode ''boot lost+found'' = Some (text_of ''boot lost+found'')"
    by (rule py_decode_ascii) simp
  have sp: "split_text (text_of ''boot lost+found'') = [text_of ''boot'', text_of ''lost+found'']"
    by (simp add: split_text_def text_of_def is_whitespace_def)
  have mk: "text_of ''etc'' \<notin> set [text_of ''boot'', text_of ''lost+found'']
            \<and> text_of ''system-data'' \<notin> set [text_of ''boot'', text_of ''lost+found'']
            \<and> text_of ''snaps'' \<notin> set [text_of ''boot'', text_of ''lost+found'']"
    by (simp add: text_of_def)
  have nm: "\<forall>tr ip dirs decoded. device_ip lab_config = Some ip \<longrightarrow>
             respond blank_disk_env tr (ssh_argv ''pi'' ip ''ls /mnt'') = Completed dirs \<longrightarrow>
             py_decode dirs = Some decoded \<longrightarrow>
             text_of ''etc'' \<notin> set (split_text decoded)
             \<and> text_of ''system-data'' \<notin> set (split_text decoded)
             \<and> text_of ''snaps'' \<notin> set (split_text decoded)"
  proof (intro allI impI)
    fix tr ip dirs decoded
    assume "device_ip lab_config = Some ip"
      and r: "respond blank_disk_env tr (ssh_argv ''pi'' ip ''ls /mnt'') = Completed dirs"
      and d: "py_decode dirs = Some decoded"
    then have "ip = ''10.0.0.2''" by (simp add: lab_config_def)
    with r have "dirs = ''boot lost+found''"
      by (simp add: blank_disk_env_def lab_env_def ssh_argv_def)
    with d ls have "decoded = text_of ''boot lost+found''" by simp
    with sp mk show "text_of ''etc'' \<notin> set (split_text decoded)
             \<and> text_of ''system-data'' \<notin> set (split_text decoded)
             \<and> text_of ''snaps'' \<notin> set (split_text decoded)" by simp
  qed
  have hyp: "?rc = (Inr lsblk_report, snd ?rc)
            \<and> py_decode lsblk_report = Some (text_of lsblk_report)
            \<and> json_loads blank_disk_env (text_of lsblk_report) = Some ?doc
            \<and> blockdevices ?doc = Some (Blockdev (Some ''sda'') (Some ?children) # [])
            \<and> bd_children (Blockdev (Some ''sda'') (Some ?children)) = Some ?children
            \<and> child_names ?children \<noteq> []"
    using rc dec js bd ch ne by (intro conjI)
  have u: "fst (get_image_type lab_config blank_disk_env world0)
             = Inr (''unknown'', last (child_names ?children))"
    by (rule get_image_type_unknown [OF td nm, THEN conjunct2, rule_format, OF hyp])
  have fn: "fst ?rn = Inl (ProvisioningError ''lsblk: /dev/sda: not a block device'')"
    by (simp add: run_control_def check_output_def run_subprocess_def ssh_argv_def
          lab_config_def no_lsblk_env_def lab_env_def)
  then have rn: "?rn = (Inl (ProvisioningError ''lsblk: /dev/sda: not a block device''), snd ?rn)"
    by (simp add: prod_eq_iff)
  have nn: "\<forall>tr ip dirs decoded. device_ip lab_config = Some ip \<longrightarrow>
             respond no_lsblk_env tr (ssh_argv ''pi'' ip ''ls /mnt'') = Completed dirs \<longrightarrow>
             py_decode dirs = Some decoded \<longrightarrow>
             text_of ''etc'' \<notin> set (split_text decoded)
             \<and> text_of ''system-data'' \<notin> set (split_text decoded)
             \<and> text_of ''snaps'' \<notin> set (split_text decoded)"
    by (simp add: no_lsblk_env_def lab_env_def)
  have "get_image_type lab_config no_lsblk_env world0
          = (Inl (ProvisioningError ''lsblk: /dev/sda: not a block device''), snd ?rn)"
    by (rule get_image_type_unknown [OF td nn, THEN conjunct1, rule_format, OF rn])
  then have v: "fst (get_image_type lab_config no_lsblk_env world0)
          = Inl (ProvisioningError ''lsblk: /dev/sda: not a block device'')"
    by simp
  from td f dec ls sp cn u fn v show ?thesis by simp
qed

section \<open>The self-call of the recovery\<close>

text \<open>One call of the method always ends by itself: with a bound of at least one, the
  result can only be missing when the second loop asked for a self-call.\<close>

lemma reset_to_master_no_rerun: "fst (reset_to_master cfg env w) \<noteq> Recurse"
  by (simp add: reset_to_master_def split: prod.split sum.split flow.split option.split bool.split)

lemma ensure_master_image_ends_unless_rerun:
  assumes "ensure_master_image (Suc depth) cfg env w = None"
  shows "\<exists>w1 w2. recover_unknown cfg env w1 = (Recurse, w2)"
proof -
  obtain t w1 where t: "is_test_image_booted cfg env w = (t, w1)"
    by (cases "is_test_image_booted cfg env w")
  show ?thesis
  proof (cases t)
    case (Inl e)
    with assms t show ?thesis by simp
  next
    case (Inr test_booted)
    obtain f w2 where f: "(if test_booted then reset_to_master cfg env w1 else (Continue, w1)) = (f, w2)"
      by (cases "if test_booted then reset_to_master cfg env w1 else (Continue, w1)")
    have nr: "f \<noteq> Recurse"
      using f reset_to_master_no_rerun[of cfg env w1] by (cases test_booted) auto
    obtain g w3 where g: "recover_unknown cfg env w2 = (g, w3)"
      by (cases "recover_unknown cfg env w2")
    from assms t Inr f g nr have "g = Recurse"
      by (cases f; cases g) simp_all
    with g show ?thesis by blast
  qed
qed

lemma stuck_test_probe_no:
  "trace w = [] \<or> last (trace w) \<noteq> master_probe \<Longrightarrow>
   \<exists>w'. is_test_image_booted lab_config stuck_env w = (Inr False, w')
        \<and> trace w' = trace w @ [test_probe]"
  by (auto simp: is_test_image_booted_def check_output_def run_subprocess_def
        lab_config_def stuck_env_def lab_env_def test_probe_def ssh_argv_def)

lemma stuck_test_probe_yes:
  "trace w \<noteq> [] \<Longrightarrow> last (trace w) = master_probe \<Longrightarrow>
   \<exists>w'. is_test_image_booted lab_config stuck_env w = (Inr True, w')
        \<and> trace w' = trace w @ [test_probe]"
  by (simp add: is_test_image_booted_def check_output_def run_subprocess_def
        lab_config_def stuck_env_def lab_env_def test_probe_def ssh_argv_def)

lemma stuck_master_probe:
  "\<exists>w'. is_master_image_booted lab_config stuck_env w = (False, w')
        \<and> trace w' = trace w @ [master_probe]"
  by (simp add: is_master_image_booted_def run_control_def check_output_def run_subprocess_def
        lab_config_def stuck_env_def lab_env_def master_probe_def ssh_argv_def)

lemma stuck_hardreset:
  "\<exists>w'. hardreset lab_config stuck_env w = (Inr (), w')"
  by (simp add: hardreset_def check_call_def check_output_def run_subprocess_def
        py_split_def is_space_def lab_config_def stuck_env_def lab_env_def ssh_argv_def)

lemma stuck_poll_recover:
  "\<exists>w'. poll_recover lab_config stuck_env (now w) w = (Recurse, w')
        \<and> trace w' \<noteq> [] \<and> last (trace w') = test_probe"
proof -
  obtain w2 where m: "is_master_image_booted lab_config stuck_env (sleep 10 w) = (False, w2)"
    and m': "trace w2 = trace (sleep 10 w) @ [master_probe]"
    using stuck_master_probe[of "sleep 10 w"] by blast
  from m' have "trace w2 \<noteq> []" "last (trace w2) = master_probe" by simp_all
  then obtain w3 where t: "is_test_image_booted lab_config stuck_env w2 = (Inr True, w3)"
    and t': "trace w3 = trace w2 @ [test_probe]"
    using stuck_test_probe_yes[of w2] by blast
  have "poll_recover lab_config stuck_env (now w) w = (Recurse, w3)"
    by (subst poll_recover.simps) (simp add: m t)
  moreover from t' have "trace w3 \<noteq> [] \<and> last (trace w3) = test_probe" by simp
  ultimately show ?thesis by blast
qed

lemma stuck_recover_unknown:
  "\<exists>w'. recover_unknown lab_config stuck_env w = (Recurse, w')
        \<and> trace w' \<noteq> [] \<and> last (trace w') = test_probe"
proof -
  obtain w1 where m: "is_master_image_booted lab_config stuck_env w = (False, w1)"
    using stuck_master_probe[of w] by blast
  obtain w2 where h: "hardreset lab_config stuck_env w1 = (Inr (), w2)"
    using stuck_hardreset[of w1] by blast
  obtain w3 where p: "poll_recover lab_config stuck_env (now w2) w2 = (Recurse, w3)"
    and l: "trace w3 \<noteq> [] \<and> last (trace w3) = test_probe"
    using stuck_poll_recover[of w2] by blast
  have "recover_unknown lab_config stuck_env w = (Recurse, w3)"
    by (simp add: recover_unknown_def m h p)
  with l show ?thesis by blast
qed

lemma probes_differ: "test_probe \<noteq> master_probe"
  by (simp add: test_probe_def master_probe_def ssh_argv_def)

lemma stuck_step:
  assumes "trace w = [] \<or> last (trace w) \<noteq> master_probe"
  shows "\<exists>w'. ensure_master_image (Suc depth) lab_config stuck_env w
                = ensure_master_image depth lab_config stuck_env w'
              \<and> (trace w' = [] \<or> last (trace w') \<noteq> master_probe)"
proof -
  obtain w1 where t: "is_test_image_booted lab_config stuck_env w = (Inr False, w1)"
    using stuck_test_probe_no[OF assms] by blast
  obtain w' where r: "recover_unknown lab_config stuck_env w1 = (Recurse, w')"
    and l: "trace w' \<noteq> []" "last (trace w') = test_probe"
    using stuck_recover_unknown[of w1] by blast
  have "ensure_master_image (Suc depth) lab_config stuck_env w
          = ensure_master_image depth lab_config stuck_env w'"
    by (simp add: t r)
  moreover have "last (trace w') \<noteq> master_probe"
    using l probes_differ by simp
  ultimately show ?thesis by blast
qed

lemma stuck_forever:
  "trace w = [] \<or> last (trace w) \<noteq> master_probe \<Longrightarrow>
   ensure_master_image depth lab_config stuck_env w = None"
proof (induction depth arbitrary: w)
  case 0
  show ?case by simp
next
  case (Suc depth)
  from stuck_step[OF Suc.prems, of depth]
  obtain w' where "ensure_master_image (Suc depth) lab_config stuck_env w
                = ensure_master_image depth lab_config stuck_env w'"
     and "trace w' = [] \<or> last (trace w') \<noteq> master_probe" by blast
  with Suc.IH[of w'] show ?case by simp
qed

text \<open>
  C2. The claim asks that \<^verbatim>\<open>ensure_master_image\<close> ends, by returning or by raising
  \<^verbatim>\<open>RecoveryError\<close>, for every sequence of probe results. Each of its polling loops
  is bounded by its 300 seconds (the loops above are total functions), but the second
  loop ends with \<^verbatim>\<open>return self.ensure_master_image()\<close> when it sees the test image,
  and nothing bounds these self-calls. For the probe results no, no, no, yes, repeated
  (test image, master image, master image after the power cycle, test image), every
  call power cycles the device and calls itself again: whatever bound is put on the
  depth of the self-calls, the method has neither returned nor raised when the bound
  is reached.
\<close>

theorem ensure_master_image_reruns_forever:
  "ensure_master_image depth lab_config stuck_env world0 = None"
  by (rule stuck_forever) (simp add: world0_def)

end
